theory Spec2Isabelle
  imports Complex_Main
begin

section \<open>Shader arithmetic\<close>

text \<open>
  The shaders of \<^verbatim>\<open>scripts.js\<close> compute with GLSL floats. A float is modelled as a
  real number or as no number at all: \<open>None\<close> stands for a result that is not a finite
  number (the quotient by zero, the square root of a negative number, and whatever is
  computed from them). Rounding and overflow are not modelled. Addition, subtraction and
  multiplication give no number as soon as one operand is no number, as they do on NaN
  and on the infinities, and so does the division here; a comparison with no number is
  false, as it is with NaN.
\<close>

type_synonym glfloat = "real option"

fun fadd :: "glfloat \<Rightarrow> glfloat \<Rightarrow> glfloat" where
  "fadd (Some x) (Some y) = Some (x + y)"
| "fadd _ _ = None"

fun fsub :: "glfloat \<Rightarrow> glfloat \<Rightarrow> glfloat" where
  "fsub (Some x) (Some y) = Some (x - y)"
| "fsub _ _ = None"

fun fmul :: "glfloat \<Rightarrow> glfloat \<Rightarrow> glfloat" where
  "fmul (Some x) (Some y) = Some (x * y)"
| "fmul _ _ = None"

fun fdiv :: "glfloat \<Rightarrow> glfloat \<Rightarrow> glfloat" where
  "fdiv (Some x) (Some y) = (if y = 0 then None else Some (x / y))"
| "fdiv _ _ = None"

fun fneg :: "glfloat \<Rightarrow> glfloat" where
  "fneg (Some x) = Some (- x)"
| "fneg None = None"

fun fsqrt :: "glfloat \<Rightarrow> glfloat" where
  "fsqrt (Some x) = (if x < 0 then None else Some (sqrt x))"
| "fsqrt None = None"

fun flt :: "glfloat \<Rightarrow> glfloat \<Rightarrow> bool" where
  "flt (Some x) (Some y) = (x < y)"
| "flt _ _ = False"

type_synonym rvec2 = "real \<times> real"
type_synonym rvec3 = "real \<times> real \<times> real"
type_synonym rvec4 = "real \<times> real \<times> real \<times> real"
type_synonym vec2 = "glfloat \<times> glfloat"
type_synonym vec3 = "glfloat \<times> glfloat \<times> glfloat"
type_synonym vec4 = "glfloat \<times> glfloat \<times> glfloat \<times> glfloat"

text \<open>A matrix is the tuple of its four rows.\<close>

type_synonym mat4 = "rvec4 \<times> rvec4 \<times> rvec4 \<times> rvec4"

fun lift2 :: "rvec2 \<Rightarrow> vec2" where
  "lift2 (x, y) = (Some x, Some y)"

fun lift3 :: "rvec3 \<Rightarrow> vec3" where
  "lift3 (x, y, z) = (Some x, Some y, Some z)"

fun vsub2 :: "vec2 \<Rightarrow> vec2 \<Rightarrow> vec2" where
  "vsub2 (a, b) (x, y) = (fsub a x, fsub b y)"

fun vscale2 :: "vec2 \<Rightarrow> glfloat \<Rightarrow> vec2" where
  "vscale2 (a, b) s = (fmul a s, fmul b s)"

fun rdot4 :: "rvec4 \<Rightarrow> rvec4 \<Rightarrow> real" where
  "rdot4 (a, b, c, d) (x, y, z, w) = a * x + b * y + c * z + d * w"

fun transpose4 :: "mat4 \<Rightarrow> mat4" where
  "transpose4 ((a0, a1, a2, a3), (b0, b1, b2, b3), (c0, c1, c2, c3), (d0, d1, d2, d3)) =
     ((a0, b0, c0, d0), (a1, b1, c1, d1), (a2, b2, c2, d2), (a3, b3, c3, d3))"

fun row_mul_mat :: "rvec4 \<Rightarrow> mat4 \<Rightarrow> rvec4" where
  "row_mul_mat r (c0, c1, c2, c3) = (rdot4 r c0, rdot4 r c1, rdot4 r c2, rdot4 r c3)"

fun mat_mul_mat :: "mat4 \<Rightarrow> mat4 \<Rightarrow> mat4" where
  "mat_mul_mat (r0, r1, r2, r3) B =
     (row_mul_mat r0 (transpose4 B), row_mul_mat r1 (transpose4 B),
      row_mul_mat r2 (transpose4 B), row_mul_mat r3 (transpose4 B))"

fun dot4 :: "rvec4 \<Rightarrow> vec4 \<Rightarrow> glfloat" where
  "dot4 (a, b, c, d) (x, y, z, w) =
     fadd (fadd (fadd (fmul (Some a) x) (fmul (Some b) y)) (fmul (Some c) z)) (fmul (Some d) w)"

fun mat_mul_vec :: "mat4 \<Rightarrow> vec4 \<Rightarrow> vec4" where
  "mat_mul_vec (r0, r1, r2, r3) v = (dot4 r0 v, dot4 r1 v, dot4 r2 v, dot4 r3 v)"

subsection \<open>The GLSL built-in functions the shaders call\<close>

text \<open>
  \<open>length\<close>, \<open>normalize\<close>, \<open>mix\<close>, \<open>clamp\<close> and \<open>smoothstep\<close> as the GLSL
  specification defines them: \<open>normalize v = v / length v\<close>,
  \<open>mix x y a = x * (1 - a) + y * a\<close>, and \<open>smoothstep e0 e1 x = t * t * (3 - 2 * t)\<close>
  with \<open>t = clamp ((x - e0) / (e1 - e0)) 0 1\<close>.
\<close>

fun glsl_length :: "vec2 \<Rightarrow> glfloat" where
  "glsl_length (x, y) = fsqrt (fadd (fmul x x) (fmul y y))"

fun glsl_normalize :: "vec2 \<Rightarrow> vec2" where
  "glsl_normalize (x, y) = (fdiv x (glsl_length (x, y)), fdiv y (glsl_length (x, y)))"

definition glsl_mix :: "glfloat \<Rightarrow> glfloat \<Rightarrow> glfloat \<Rightarrow> glfloat" where
  "glsl_mix x y a = fadd (fmul x (fsub (Some 1) a)) (fmul y a)"

fun glsl_mix3 :: "vec3 \<Rightarrow> vec3 \<Rightarrow> glfloat \<Rightarrow> vec3" where
  "glsl_mix3 (x0, x1, x2) (y0, y1, y2) a = (glsl_mix x0 y0 a, glsl_mix x1 y1 a, glsl_mix x2 y2 a)"

fun glsl_clamp :: "glfloat \<Rightarrow> real \<Rightarrow> real \<Rightarrow> glfloat" where
  "glsl_clamp (Some x) lo hi = Some (min (max x lo) hi)"
| "glsl_clamp None lo hi = None"

definition glsl_smoothstep :: "real \<Rightarrow> real \<Rightarrow> glfloat \<Rightarrow> glfloat" where
  "glsl_smoothstep edge0 edge1 x =
     (let t = glsl_clamp (fdiv (fsub x (Some edge0)) (Some (edge1 - edge0))) 0 1
      in fmul (fmul t t) (fsub (Some 3) (fmul (Some 2) t)))"

section \<open>The vertex shader\<close>

record uniforms =
  uTime :: real
  uMouse :: rvec2
  uInteractionRadius :: real
  uRepulsionStrength :: real
  uColor1 :: rvec3
  uColor2 :: rvec3
  projectionMatrix :: mat4
  modelViewMatrix :: mat4

text \<open>
  The attributes of one particle. The geometry carries \<open>position\<close> as well as
  \<open>restingPosition\<close> and \<open>aRandom\<close>; the shader declares and reads the last two only.
\<close>

record attributes =
  position :: rvec3
  restingPosition :: rvec3
  aRandom :: real

record vertex_out =
  gl_Position :: vec4
  gl_PointSize :: glfloat
  vColor :: vec3

fun vec4_of :: "vec3 \<Rightarrow> glfloat \<Rightarrow> vec4" where
  "vec4_of (x, y, z) w = (x, y, z, w)"

text \<open>Each local variable of \<open>main\<close> is a function of the uniforms and the attributes.\<close>

definition screenPos :: "uniforms \<Rightarrow> attributes \<Rightarrow> vec4" where
  "screenPos u a =
     mat_mul_vec (mat_mul_mat (projectionMatrix u) (modelViewMatrix u))
       (vec4_of (lift3 (restingPosition a)) (Some 1))"

definition screenXY :: "uniforms \<Rightarrow> attributes \<Rightarrow> vec2" where
  "screenXY u a = (case screenPos u a of (x, y, z, w) \<Rightarrow> (fdiv x w, fdiv y w))"

definition distance :: "uniforms \<Rightarrow> attributes \<Rightarrow> glfloat" where
  "distance u a = glsl_length (vsub2 (screenXY u a) (lift2 (uMouse u)))"

definition repulsionStrength :: "uniforms \<Rightarrow> attributes \<Rightarrow> glfloat" where
  "repulsionStrength u a =
     (if flt (distance u a) (Some (uInteractionRadius u))
      then fmul (fsub (Some 1) (fdiv (distance u a) (Some (uInteractionRadius u))))
             (Some (uRepulsionStrength u))
      else Some 0)"

definition direction :: "uniforms \<Rightarrow> attributes \<Rightarrow> vec2" where
  "direction u a = glsl_normalize (vsub2 (screenXY u a) (lift2 (uMouse u)))"

definition repulsion :: "uniforms \<Rightarrow> attributes \<Rightarrow> vec2" where
  "repulsion u a = vscale2 (direction u a) (repulsionStrength u a)"

text \<open>
  \<open>finalPosition\<close> is assigned the resting position and then updated in place: first
  \<open>finalPosition.xy += repulsion\<close>, then one breathing term on each coordinate.
\<close>

definition repelledPosition :: "uniforms \<Rightarrow> attributes \<Rightarrow> vec3" where
  "repelledPosition u a =
     (case lift3 (restingPosition a) of (x, y, z) \<Rightarrow>
        (case repulsion u a of (rx, ry) \<Rightarrow> (fadd x rx, fadd y ry, z)))"

definition breathing :: "uniforms \<Rightarrow> attributes \<Rightarrow> rvec3" where
  "breathing u a =
     (sin (uTime u * 0.5 + aRandom a * 10.0) * 0.01,
      cos (uTime u * 0.5 + aRandom a * 10.0) * 0.01,
      sin (uTime u * 0.5 + aRandom a * 10.0) * 0.01)"

definition finalPosition :: "uniforms \<Rightarrow> attributes \<Rightarrow> vec3" where
  "finalPosition u a =
     (case repelledPosition u a of (x, y, z) \<Rightarrow>
        (case breathing u a of (bx, by, bz) \<Rightarrow>
           (fadd x (Some bx), fadd y (Some by), fadd z (Some bz))))"

definition modelViewPosition :: "uniforms \<Rightarrow> attributes \<Rightarrow> vec4" where
  "modelViewPosition u a = mat_mul_vec (modelViewMatrix u) (vec4_of (finalPosition u a) (Some 1))"

definition vertexShader :: "uniforms \<Rightarrow> attributes \<Rightarrow> vertex_out" where
  "vertexShader u a =
     \<lparr> gl_Position = mat_mul_vec (projectionMatrix u) (modelViewPosition u a),
       gl_PointSize =
         (case modelViewPosition u a of (x, y, z, w) \<Rightarrow>
            fmul (Some 4.0) (fdiv (Some 1.0) (fneg z))),
       vColor =
         (case restingPosition a of (rx, ry, rz) \<Rightarrow>
            glsl_mix3 (lift3 (uColor1 u)) (lift3 (uColor2 u))
              (fdiv (fadd (Some ry) (Some 1.5)) (Some 3.0))) \<rparr>"

section \<open>The fragment shader\<close>

text \<open>
  The fragment shader reads the interpolated colour and the coordinate of the fragment
  within the point sprite. \<open>None\<close> is a discarded fragment; otherwise the result is
  \<open>gl_FragColor\<close>.
\<close>

definition sprite_dist :: "rvec2 \<Rightarrow> glfloat" where
  "sprite_dist gl_PointCoord = glsl_length (vsub2 (lift2 gl_PointCoord) (Some 0.5, Some 0.5))"

definition alpha_of :: "glfloat \<Rightarrow> glfloat" where
  "alpha_of d = fsub (Some 1.0) (glsl_smoothstep 0.45 0.5 d)"

definition fragmentShader :: "vec3 \<Rightarrow> rvec2 \<Rightarrow> vec4 option" where
  "fragmentShader c gl_PointCoord =
     (if flt (alpha_of (sprite_dist gl_PointCoord)) (Some 0.01) then None
      else Some (vec4_of c (alpha_of (sprite_dist gl_PointCoord))))"

section \<open>Numbers on the host\<close>

text \<open>
  A JavaScript number is an IEEE double. The product and the difference of two numbers
  are the exact results rounded to the nearest double, ties to even (\<open>fl64\<close>), and
  \<open>Float32BufferAttribute\<close> converts each number of its array to the nearest single
  (\<open>fround\<close>). \<open>round_to p emin\<close> rounds to \<open>p\<close> significant bits with least exponent
  \<open>emin\<close>, subnormal numbers included; overflow to an infinity is not modelled.
\<close>

definition round_even :: "real \<Rightarrow> int" where
  "round_even y =
     (if y - of_int \<lfloor>y\<rfloor> < 1 / 2 then \<lfloor>y\<rfloor>
      else if 1 / 2 < y - of_int \<lfloor>y\<rfloor> then \<lfloor>y\<rfloor> + 1
      else if even \<lfloor>y\<rfloor> then \<lfloor>y\<rfloor> else \<lfloor>y\<rfloor> + 1)"

definition quantum :: "nat \<Rightarrow> int \<Rightarrow> real \<Rightarrow> real" where
  "quantum p emin x = 2 powr of_int (max \<lfloor>log 2 \<bar>x\<bar>\<rfloor> emin - int p + 1)"

definition round_to :: "nat \<Rightarrow> int \<Rightarrow> real \<Rightarrow> real" where
  "round_to p emin x =
     (if x = 0 then 0 else quantum p emin x * of_int (round_even (x / quantum p emin x)))"

definition fl64 :: "real \<Rightarrow> real" where
  "fl64 x = round_to 53 (- 1022) x"

definition fround :: "real \<Rightarrow> real" where
  "fround x = round_to 24 (- 126) x"

text \<open>
  The functions of the \<open>Math\<close> object that the generator calls are approximated by the
  engine as it sees fit; they are a parameter of the model. \<open>Math.PI\<close> is the double
  nearest to \<open>\<pi>\<close>.
\<close>

record math =
  Math_sin :: "real \<Rightarrow> real"
  Math_cos :: "real \<Rightarrow> real"
  Math_acos :: "real \<Rightarrow> real"
  Math_cbrt :: "real \<Rightarrow> real"

definition Math_PI :: real where
  "Math_PI = fl64 pi"

section \<open>Particle generation on the host\<close>

text \<open>
  The script keeps its objects in global variables and hands them to the scene. Objects
  are modelled by references into typed stores, so that the old and the new field of a
  regeneration are told apart. \<open>dispose\<close> marks an object as released. A material
  is kept with its scalar and colour uniforms; \<open>uMouse\<close> shares the global mouse vector
  and is left out. The particle count is a natural number, and \<open>Math.random\<close> reads
  the next value of a source of draws that is part of the state, as is the \<open>Math\<close>
  object. The arrays local to \<open>createParticles\<close> are fields of the state too.
\<close>

type_synonym ref = nat

record bufferAttribute =
  array :: "real list"
  itemSize :: nat

record bufferGeometry =
  geom_attributes :: "string \<rightharpoonup> bufferAttribute"
  geometry_disposed :: bool

record shaderMaterial =
  m_uTime :: real
  m_uInteractionRadius :: real
  m_uRepulsionStrength :: real
  m_uColor1 :: string
  m_uColor2 :: string
  material_disposed :: bool

record host =
  PARTICLE_COUNT :: nat
  geometry :: "ref option"
  material :: "ref option"
  particleOrb :: "ref option"
  scene :: "ref list"
  geometries :: "ref \<rightharpoonup> bufferGeometry"
  materials :: "ref \<rightharpoonup> shaderMaterial"
  points :: "ref \<rightharpoonup> ref \<times> ref"
  next_ref :: ref
  Math :: math
  random_source :: "nat \<Rightarrow> real"
  drawn :: nat
  positions :: "real list"
  restingPositions :: "real list"
  randoms :: "real list"

definition arrangementRadius :: real where
  "arrangementRadius = 1.5"

definition Math_random :: "host \<Rightarrow> real \<times> host" where
  "Math_random s = (random_source s (drawn s), s\<lparr>drawn := Suc (drawn s)\<rparr>)"

text \<open>One iteration of the \<open>for\<close> loop of \<open>createParticles\<close>.\<close>

definition loop_body :: "host \<Rightarrow> host" where
  "loop_body s0 =
     (case Math_random s0 of (u0, s1) \<Rightarrow>
      case Math_random s1 of (u1, s2) \<Rightarrow>
      case Math_random s2 of (u2, s3) \<Rightarrow>
        (let theta = fl64 (fl64 (u0 * 2) * Math_PI);
             phi = Math_acos (Math s3) (fl64 (fl64 (u1 * 2) - 1));
             r = fl64 (arrangementRadius * Math_cbrt (Math s3) u2);
             x = fl64 (fl64 (r * Math_sin (Math s3) phi) * Math_cos (Math s3) theta);
             y = fl64 (fl64 (r * Math_sin (Math s3) phi) * Math_sin (Math s3) theta);
             z = fl64 (r * Math_cos (Math s3) phi);
             s4 = s3\<lparr>positions := positions s3 @ [x, y, z]\<rparr>;
             s5 = s4\<lparr>restingPositions := restingPositions s4 @ [x, y, z]\<rparr>
         in case Math_random s5 of (u3, s6) \<Rightarrow> s6\<lparr>randoms := randoms s6 @ [u3]\<rparr>))"

text \<open>The three coordinates pushed by an iteration whose first draw has index \<open>k\<close>.\<close>

definition theta_of :: "(nat \<Rightarrow> real) \<Rightarrow> nat \<Rightarrow> real" where
  "theta_of src k = fl64 (fl64 (src k * 2) * Math_PI)"

definition phi_of :: "math \<Rightarrow> (nat \<Rightarrow> real) \<Rightarrow> nat \<Rightarrow> real" where
  "phi_of M src k = Math_acos M (fl64 (fl64 (src (k + 1) * 2) - 1))"

definition r_of :: "math \<Rightarrow> (nat \<Rightarrow> real) \<Rightarrow> nat \<Rightarrow> real" where
  "r_of M src k = fl64 (arrangementRadius * Math_cbrt M (src (k + 2)))"

definition pushed_point :: "math \<Rightarrow> (nat \<Rightarrow> real) \<Rightarrow> nat \<Rightarrow> real list" where
  "pushed_point M src k =
     [fl64 (fl64 (r_of M src k * Math_sin M (phi_of M src k)) * Math_cos M (theta_of src k)),
      fl64 (fl64 (r_of M src k * Math_sin M (phi_of M src k)) * Math_sin M (theta_of src k)),
      fl64 (r_of M src k * Math_cos M (phi_of M src k))]"

function fill_loop :: "nat \<Rightarrow> host \<Rightarrow> host" where
  "fill_loop i s = (if i < PARTICLE_COUNT s then fill_loop (Suc i) (loop_body s) else s)"
  by pat_completeness auto
termination
  by (relation "measure (\<lambda>(i, s). PARTICLE_COUNT s - i)")
    (auto simp: loop_body_def Math_random_def Let_def)

declare fill_loop.simps [simp del]

text \<open>
  The statements of \<open>createParticles\<close>. A statement that calls a method on a variable
  holding no object fails (\<open>None\<close>), as the call on \<open>undefined\<close> throws.
  \<open>setAttribute\<close> stands for the call with a new \<open>Float32BufferAttribute\<close> of the
  array, which holds the numbers of the array converted to singles.
\<close>

type_synonym stmt = "host \<Rightarrow> host option"

definition scene_remove :: stmt where
  "scene_remove s =
     (case particleOrb s of None \<Rightarrow> Some s
      | Some p \<Rightarrow> Some (s\<lparr>scene := remove1 p (scene s)\<rparr>))"

definition geometry_dispose :: stmt where
  "geometry_dispose s =
     (case geometry s of None \<Rightarrow> None
      | Some g \<Rightarrow>
          (case geometries s g of None \<Rightarrow> None
           | Some geo \<Rightarrow>
               Some (s\<lparr>geometries := (geometries s)(g \<mapsto> geo\<lparr>geometry_disposed := True\<rparr>)\<rparr>)))"

definition material_dispose :: stmt where
  "material_dispose s =
     (case material s of None \<Rightarrow> None
      | Some m \<Rightarrow>
          (case materials s m of None \<Rightarrow> None
           | Some mat \<Rightarrow>
               Some (s\<lparr>materials := (materials s)(m \<mapsto> mat\<lparr>material_disposed := True\<rparr>)\<rparr>)))"

definition new_BufferGeometry :: stmt where
  "new_BufferGeometry s =
     Some (s\<lparr>geometries := (geometries s)(next_ref s \<mapsto>
                \<lparr>geom_attributes = Map.empty, geometry_disposed = False\<rparr>),
             geometry := Some (next_ref s),
             next_ref := Suc (next_ref s)\<rparr>)"

definition declare_arrays :: stmt where
  "declare_arrays s = Some (s\<lparr>positions := [], restingPositions := [], randoms := []\<rparr>)"

definition for_loop :: stmt where
  "for_loop s = Some (fill_loop 0 s)"

definition setAttribute :: "string \<Rightarrow> (host \<Rightarrow> real list) \<Rightarrow> nat \<Rightarrow> stmt" where
  "setAttribute name arr k s =
     (case geometry s of None \<Rightarrow> None
      | Some g \<Rightarrow>
          (case geometries s g of None \<Rightarrow> None
           | Some geo \<Rightarrow>
               Some (s\<lparr>geometries := (geometries s)(g \<mapsto>
                 geo\<lparr>geom_attributes :=
                   (geom_attributes geo)(name \<mapsto> \<lparr>array = map fround (arr s), itemSize = k\<rparr>)\<rparr>)\<rparr>)))"

definition new_ShaderMaterial :: stmt where
  "new_ShaderMaterial s =
     Some (s\<lparr>materials := (materials s)(next_ref s \<mapsto>
                \<lparr>m_uTime = 0, m_uInteractionRadius = 0.8, m_uRepulsionStrength = 0.5,
                 m_uColor1 = ''#ff0080'', m_uColor2 = ''#00ffff'',
                 material_disposed = False\<rparr>),
             material := Some (next_ref s),
             next_ref := Suc (next_ref s)\<rparr>)"

definition new_Points :: stmt where
  "new_Points s =
     (case geometry s of None \<Rightarrow> None
      | Some g \<Rightarrow>
          (case material s of None \<Rightarrow> None
           | Some m \<Rightarrow>
               Some (s\<lparr>points := (points s)(next_ref s \<mapsto> (g, m)),
                       particleOrb := Some (next_ref s),
                       next_ref := Suc (next_ref s)\<rparr>)))"

definition scene_add :: stmt where
  "scene_add s =
     (case particleOrb s of None \<Rightarrow> None
      | Some p \<Rightarrow> Some (s\<lparr>scene := scene s @ [p]\<rparr>))"

text \<open>
  The body of \<open>createParticles\<close> in the order of the source: the guarded block that
  removes and disposes the previous objects, then the construction of the new ones.
\<close>

definition dispose_stmts :: "stmt list" where
  "dispose_stmts = [scene_remove, geometry_dispose, material_dispose]"

definition build_stmts :: "stmt list" where
  "build_stmts =
     [new_BufferGeometry, declare_arrays, for_loop,
      setAttribute ''position'' positions 3,
      setAttribute ''restingPosition'' restingPositions 3,
      setAttribute ''aRandom'' randoms 1,
      new_ShaderMaterial, new_Points, scene_add]"

definition createParticles_body :: "host \<Rightarrow> stmt list" where
  "createParticles_body s =
     (if particleOrb s \<noteq> None then dispose_stmts else []) @ build_stmts"

fun run :: "stmt list \<Rightarrow> host \<Rightarrow> host option" where
  "run [] s = Some s"
| "run (f # fs) s = (case f s of None \<Rightarrow> None | Some s' \<Rightarrow> run fs s')"

text \<open>The states after each statement, up to the first failure.\<close>

fun trace :: "stmt list \<Rightarrow> host \<Rightarrow> host list" where
  "trace [] s = []"
| "trace (f # fs) s = (case f s of None \<Rightarrow> [] | Some s' \<Rightarrow> s' # trace fs s')"

definition createParticles :: "host \<Rightarrow> host option" where
  "createParticles s = run (createParticles_body s) s"

text \<open>The handler of the particle-count control.\<close>

definition onFinishChange :: "nat \<Rightarrow> host \<Rightarrow> host option" where
  "onFinishChange particleCount s = createParticles (s\<lparr>PARTICLE_COUNT := particleCount\<rparr>)"

text \<open>The state of the script before its first call of \<open>createParticles\<close>.\<close>

definition initial :: "math \<Rightarrow> (nat \<Rightarrow> real) \<Rightarrow> host" where
  "initial M src =
     \<lparr>PARTICLE_COUNT = 100000, geometry = None, material = None, particleOrb = None,
      scene = [], geometries = Map.empty, materials = Map.empty, points = Map.empty,
      next_ref = 0, Math = M, random_source = src, drawn = 0,
      positions = [], restingPositions = [], randoms = []\<rparr>"

subsection \<open>The arrays the loop builds\<close>

text \<open>
  The coordinates and the seeds pushed by \<open>n\<close> iterations when the first draw has index
  \<open>d\<close>, and the geometry that carries them as its three attributes.
\<close>

definition pushed_points :: "math \<Rightarrow> (nat \<Rightarrow> real) \<Rightarrow> nat \<Rightarrow> nat \<Rightarrow> real list" where
  "pushed_points M src d n = concat (map (\<lambda>i. pushed_point M src (d + 4 * i)) [0..<n])"

definition pushed_seeds :: "(nat \<Rightarrow> real) \<Rightarrow> nat \<Rightarrow> nat \<Rightarrow> real list" where
  "pushed_seeds src d n = map (\<lambda>i. src (d + 4 * i + 3)) [0..<n]"

definition built_geometry :: "math \<Rightarrow> (nat \<Rightarrow> real) \<Rightarrow> nat \<Rightarrow> nat \<Rightarrow> bufferGeometry" where
  "built_geometry M src d n =
     \<lparr>geom_attributes =
        [''position'' \<mapsto> \<lparr>array = map fround (pushed_points M src d n), itemSize = 3\<rparr>,
         ''restingPosition'' \<mapsto>
           \<lparr>array = map fround (pushed_points M src d n), itemSize = 3\<rparr>,
         ''aRandom'' \<mapsto> \<lparr>array = map fround (pushed_seeds src d n), itemSize = 1\<rparr>],
      geometry_disposed = False\<rparr>"

text \<open>
  The state after the guarded block has removed and disposed the field made of geometry
  \<open>g\<close> and material \<open>m\<close>, and the state after the construction statements have
  run from a state \<open>t\<close>.
\<close>

definition released :: "host \<Rightarrow> ref \<Rightarrow> bufferGeometry \<Rightarrow> ref \<Rightarrow> shaderMaterial \<Rightarrow> host" where
  "released s g geo m mat =
     s\<lparr>scene := [],
       geometries := (geometries s)(g \<mapsto> geo\<lparr>geometry_disposed := True\<rparr>),
       materials := (materials s)(m \<mapsto> mat\<lparr>material_disposed := True\<rparr>)\<rparr>"

definition built :: "host \<Rightarrow> host" where
  "built t =
     t\<lparr>geometry := Some (next_ref t), material := Some (Suc (next_ref t)),
       particleOrb := Some (Suc (Suc (next_ref t))),
       scene := scene t @ [Suc (Suc (next_ref t))],
       geometries := (geometries t)(next_ref t \<mapsto>
          built_geometry (Math t) (random_source t) (drawn t) (PARTICLE_COUNT t)),
       materials := (materials t)(Suc (next_ref t) \<mapsto>
          \<lparr>m_uTime = 0, m_uInteractionRadius = 0.8, m_uRepulsionStrength = 0.5,
           m_uColor1 = ''#ff0080'', m_uColor2 = ''#00ffff'', material_disposed = False\<rparr>),
       points := (points t)(Suc (Suc (next_ref t)) \<mapsto> (next_ref t, Suc (next_ref t))),
       next_ref := Suc (Suc (Suc (next_ref t))),
       drawn := drawn t + 4 * PARTICLE_COUNT t,
       positions := pushed_points (Math t) (random_source t) (drawn t) (PARTICLE_COUNT t),
       restingPositions :=
         pushed_points (Math t) (random_source t) (drawn t) (PARTICLE_COUNT t),
       randoms := pushed_seeds (random_source t) (drawn t) (PARTICLE_COUNT t)\<rparr>"

subsection \<open>What a draw call reads, and which objects are live\<close>

text \<open>
  A geometry is complete when it carries the three attributes with the item sizes of the
  source and with arrays of matching lengths; its particle count is the length of the
  \<open>aRandom\<close> array.
\<close>

definition field_complete :: "bufferGeometry \<Rightarrow> bool" where
  "field_complete geo =
     (case geom_attributes geo ''position'' of None \<Rightarrow> False
      | Some p \<Rightarrow>
     (case geom_attributes geo ''restingPosition'' of None \<Rightarrow> False
      | Some r \<Rightarrow>
     (case geom_attributes geo ''aRandom'' of None \<Rightarrow> False
      | Some a \<Rightarrow>
          itemSize p = 3 \<and> itemSize r = 3 \<and> itemSize a = 1 \<and>
          length (array p) = 3 * length (array a) \<and>
          length (array r) = 3 * length (array a))))"

definition live_geometry :: "host \<Rightarrow> ref \<Rightarrow> bool" where
  "live_geometry s g =
     (case geometries s g of None \<Rightarrow> False | Some geo \<Rightarrow> \<not> geometry_disposed geo)"

definition live_material :: "host \<Rightarrow> ref \<Rightarrow> bool" where
  "live_material s m =
     (case materials s m of None \<Rightarrow> False | Some mat \<Rightarrow> \<not> material_disposed mat)"

text \<open>
  \<open>renderer.render (scene, camera)\<close> reads the objects of the scene. The scene is
  drawable when each of them is a points object whose geometry is complete and whose
  geometry and material are not disposed.
\<close>

definition drawable_object :: "host \<Rightarrow> ref \<Rightarrow> bool" where
  "drawable_object s p =
     (case points s p of None \<Rightarrow> False
      | Some (g, m) \<Rightarrow>
          live_material s m \<and>
          (case geometries s g of None \<Rightarrow> False
           | Some geo \<Rightarrow> \<not> geometry_disposed geo \<and> field_complete geo))"

definition drawable :: "host \<Rightarrow> bool" where
  "drawable s = list_all (drawable_object s) (scene s)"

definition at_most_one_live :: "host \<Rightarrow> bool" where
  "at_most_one_live s =
     ((\<forall>g g'. live_geometry s g \<and> live_geometry s g' \<longrightarrow> g = g') \<and>
      (\<forall>m m'. live_material s m \<and> live_material s m' \<longrightarrow> m = m'))"

text \<open>
  The state between two handlers once the script has started: the three global variables
  hold the one field, which is the only child of the scene and is drawable, no other
  geometry or material is live, and the references in use are below the next free one.
\<close>

definition steady :: "host \<Rightarrow> bool" where
  "steady s =
     (case particleOrb s of None \<Rightarrow> False
      | Some p \<Rightarrow>
     (case geometry s of None \<Rightarrow> False
      | Some g \<Rightarrow>
     (case material s of None \<Rightarrow> False
      | Some m \<Rightarrow>
          scene s = [p] \<and> points s p = Some (g, m) \<and> drawable_object s p \<and>
          at_most_one_live s \<and> g < next_ref s \<and> m < next_ref s \<and> p < next_ref s)))"

text \<open>
  The order build, swap, release of a regeneration, read on the states after each
  statement: wherever the old geometry \<open>g\<close> is released, the scene already holds a
  complete field on another geometry.
\<close>

definition new_field_in_scene :: "ref \<Rightarrow> host \<Rightarrow> bool" where
  "new_field_in_scene g t =
     list_ex (\<lambda>p. case points t p of None \<Rightarrow> False
                   | Some (g', m') \<Rightarrow> g' \<noteq> g \<and> drawable_object t p) (scene t)"

definition build_swap_release :: "ref \<Rightarrow> host list \<Rightarrow> bool" where
  "build_swap_release g tr =
     list_all (\<lambda>t. live_geometry t g \<or> new_field_in_scene g t) tr"

subsection \<open>Rest positions and their norm\<close>

text \<open>
  The \<open>i\<close>-th triple of the \<open>restingPosition\<close> attribute of the geometry in the variable
  \<open>geometry\<close>, and the Euclidean norm of a triple.
\<close>

definition rest_triple :: "host \<Rightarrow> nat \<Rightarrow> real list" where
  "rest_triple s i =
     (case geometry s of None \<Rightarrow> []
      | Some g \<Rightarrow>
     (case geometries s g of None \<Rightarrow> []
      | Some geo \<Rightarrow>
     (case geom_attributes geo ''restingPosition'' of None \<Rightarrow> []
      | Some att \<Rightarrow> take 3 (drop (3 * i) (array att)))))"

fun norm3 :: "real list \<Rightarrow> real" where
  "norm3 [x, y, z] = sqrt (x\<^sup>2 + y\<^sup>2 + z\<^sup>2)"
| "norm3 xs = 0"

text \<open>
  The point of the sphere of radius \<open>arrangementRadius * cbrt v\<close> at the two angles that
  an iteration has computed, in exact arithmetic.
\<close>

definition exact_point :: "math \<Rightarrow> (nat \<Rightarrow> real) \<Rightarrow> nat \<Rightarrow> real list" where
  "exact_point M src k =
     [arrangementRadius * root 3 (src (k + 2)) * sin (phi_of M src k) * cos (theta_of src k),
      arrangementRadius * root 3 (src (k + 2)) * sin (phi_of M src k) * sin (theta_of src k),
      arrangementRadius * root 3 (src (k + 2)) * cos (phi_of M src k)]"

text \<open>
  An engine is accurate when its sine and cosine, and its cube root on \<open>[0, 1)\<close>, are
  within \<open>2\<^sup>-\<^sup>4\<^sup>0\<close> of the exact values.
\<close>

definition accurate :: "math \<Rightarrow> bool" where
  "accurate M =
     ((\<forall>t. \<bar>Math_sin M t - sin t\<bar> \<le> 1 / 2 ^ 40) \<and>
      (\<forall>t. \<bar>Math_cos M t - cos t\<bar> \<le> 1 / 2 ^ 40) \<and>
      (\<forall>v. 0 \<le> v \<and> v < 1 \<longrightarrow> \<bar>Math_cbrt M v - root 3 v\<bar> \<le> 1 / 2 ^ 40))"

section \<open>Concrete inputs\<close>

text \<open>
  The matrices the rendering library supplies for the camera of the script, a perspective
  camera with near plane 0.1 and far plane 1000 at \<open>z = 3.5\<close>, looking at an orb that is
  rotated about the y axis. \<open>t\<close> is the tangent of half the vertical field of view.
\<close>

definition perspective :: "real \<Rightarrow> real \<Rightarrow> mat4" where
  "perspective t aspect =
     ((1 / (t * aspect), 0, 0, 0),
      (0, 1 / t, 0, 0),
      (0, 0, - (1000 + 0.1) / (1000 - 0.1), - 2 * 1000 * 0.1 / (1000 - 0.1)),
      (0, 0, - 1, 0))"

definition orb_modelView :: "real \<Rightarrow> mat4" where
  "orb_modelView angle =
     ((cos angle, 0, sin angle, 0),
      (0, 1, 0, 0),
      (- sin angle, 0, cos angle, - 3.5),
      (0, 0, 0, 1))"

text \<open>
  The first frame of the script in a 16:9 window: time 0, no rotation, the cursor at the
  origin, radius and strength at their initial values, the two colours with the
  components of their hexadecimal codes, and the field of view of 75 degrees.
\<close>

definition first_frame :: uniforms where
  "first_frame =
     \<lparr>uTime = 0, uMouse = (0, 0), uInteractionRadius = 0.8, uRepulsionStrength = 0.5,
      uColor1 = (1, 0, 128 / 255), uColor2 = (0, 1, 1),
      projectionMatrix = perspective (tan (75 * pi / 360)) (16 / 9),
      modelViewMatrix = orb_modelView 0\<rparr>"

text \<open>The particle generated when the draw for the radius is 0: it rests at the centre.\<close>

definition centre_particle :: attributes where
  "centre_particle = \<lparr>position = (0, 0, 0), restingPosition = (0, 0, 0), aRandom = 0\<rparr>"

text \<open>
  A frame with a field of view of 90 degrees in a square window and the cursor at
  \<open>(0.1, 0.1)\<close>, and a particle that projects to \<open>(0.15, 0.1)\<close>.
\<close>

definition square_frame :: uniforms where
  "square_frame =
     \<lparr>uTime = 0, uMouse = (0.1, 0.1), uInteractionRadius = 0.8, uRepulsionStrength = 0.5,
      uColor1 = (1, 0, 128 / 255), uColor2 = (0, 1, 1),
      projectionMatrix = perspective 1 1,
      modelViewMatrix = orb_modelView 0\<rparr>"

definition near_particle :: attributes where
  "near_particle =
     \<lparr>position = (0.525, 0.35, 0), restingPosition = (0.525, 0.35, 0), aRandom = 0.25\<rparr>"

text \<open>An engine whose functions are the exact ones rounded to the nearest double.\<close>

definition rounded_math :: math where
  "rounded_math =
     \<lparr>Math_sin = (\<lambda>x. fl64 (sin x)), Math_cos = (\<lambda>x. fl64 (cos x)),
      Math_acos = (\<lambda>x. fl64 (arccos x)), Math_cbrt = (\<lambda>x. fl64 (root 3 x))\<rparr>"

text \<open>
  The state of the script when the particle count is changed from 100000 to 50000, for a
  source of draws that is constantly 0: each of the 100000 particles of the old field
  rests at the centre with seed 0.
\<close>

definition old_field :: bufferGeometry where
  "old_field =
     \<lparr>geom_attributes =
        [''position'' \<mapsto> \<lparr>array = replicate 300000 0, itemSize = 3\<rparr>,
         ''restingPosition'' \<mapsto> \<lparr>array = replicate 300000 0, itemSize = 3\<rparr>,
         ''aRandom'' \<mapsto> \<lparr>array = replicate 100000 0, itemSize = 1\<rparr>],
      geometry_disposed = False\<rparr>"

definition count_changed :: host where
  "count_changed =
     \<lparr>PARTICLE_COUNT = 50000, geometry = Some 0, material = Some 1, particleOrb = Some 2,
      scene = [2],
      geometries = [0 \<mapsto> old_field],
      materials = [1 \<mapsto> \<lparr>m_uTime = 0, m_uInteractionRadius = 0.8,
                           m_uRepulsionStrength = 0.5, m_uColor1 = ''#ff0080'',
                           m_uColor2 = ''#00ffff'', material_disposed = False\<rparr>],
      points = [2 \<mapsto> (0, 1)],
      next_ref = 3, Math = rounded_math, random_source = (\<lambda>k. 0), drawn = 400000,
      positions = replicate 300000 0, restingPositions = replicate 300000 0,
      randoms = replicate 100000 0\<rparr>"

text \<open>
  The script at startup with a source whose draws for the first particle are 0 for the
  azimuth, \<open>13 / 64\<close> for the polar angle and \<open>1 - 2\<^sup>-\<^sup>3\<^sup>0\<close> for the radius, and 0
  from then on.
\<close>

definition tilted_source :: "nat \<Rightarrow> real" where
  "tilted_source k = (if k = 1 then 13 / 64 else if k = 2 then 1 - 1 / 2 ^ 30 else 0)"

definition tilted_start :: host where
  "tilted_start = initial rounded_math tilted_source"

section \<open>Properties of the vertex shader\<close>

subsection \<open>Distance and repulsion magnitude\<close>

lemma glsl_length_nonneg: "glsl_length v = Some d \<Longrightarrow> 0 \<le> d"
  by (cases v; cases "fst v"; cases "snd v") (auto split: if_splits)

lemma distance_nonneg: "distance u a = Some d \<Longrightarrow> 0 \<le> d"
  unfolding distance_def by (rule glsl_length_nonneg)

text \<open>
  With the matrices of the camera of the script, the projection of a rest position within
  the arrangement radius has a positive \<open>w\<close>, so that the distance to the cursor is a
  number for every particle of a generated field.
\<close>

lemma rotated_depth_bound:
  fixes x z :: real
  shows "\<bar>sin \<phi> * x - cos \<phi> * z\<bar> \<le> sqrt (x\<^sup>2 + z\<^sup>2)"
proof -
  have "(sin \<phi> * x - cos \<phi> * z)\<^sup>2 + (cos \<phi> * x + sin \<phi> * z)\<^sup>2 = x\<^sup>2 + z\<^sup>2"
    using sin_cos_squared_add[of \<phi>] by algebra
  then have "(sin \<phi> * x - cos \<phi> * z)\<^sup>2 \<le> x\<^sup>2 + z\<^sup>2"
    using zero_le_power2[of "cos \<phi> * x + sin \<phi> * z"] by linarith
  then have "sqrt ((sin \<phi> * x - cos \<phi> * z)\<^sup>2) \<le> sqrt (x\<^sup>2 + z\<^sup>2)"
    by (rule real_sqrt_le_mono)
  then show ?thesis by simp
qed

lemma glsl_length_Some: "glsl_length (Some p, Some q) = Some (sqrt (p * p + q * q))"
  by (simp add: not_less)

lemma distance_defined:
  assumes P: "projectionMatrix u = perspective t aspect"
    and MV: "modelViewMatrix u = orb_modelView \<phi>"
    and a: "restingPosition a = (x, y, z)"
    and r: "sqrt (x\<^sup>2 + y\<^sup>2 + z\<^sup>2) \<le> arrangementRadius"
  shows "\<exists>d. distance u a = Some d"
proof -
  have "sqrt (x\<^sup>2 + z\<^sup>2) \<le> sqrt (x\<^sup>2 + y\<^sup>2 + z\<^sup>2)"
    by simp
  with r rotated_depth_bound[of \<phi> x z]
  have "\<bar>sin \<phi> * x - cos \<phi> * z\<bar> \<le> arrangementRadius"
    by linarith
  then have "\<bar>sin \<phi> * x - cos \<phi> * z\<bar> \<le> 1.5"
    by (simp add: arrangementRadius_def)
  then have w: "sin \<phi> * x - cos \<phi> * z + 3.5 \<noteq> 0"
    by linarith
  have "\<exists>sx sy sz. screenPos u a = (Some sx, Some sy, sz, Some (sin \<phi> * x - cos \<phi> * z + 3.5))"
    by (simp add: screenPos_def P MV a perspective_def orb_modelView_def)
  then obtain sx sy sz where
    s: "screenPos u a = (Some sx, Some sy, sz, Some (sin \<phi> * x - cos \<phi> * z + 3.5))"
    by blast
  obtain c0 c1 where c: "uMouse u = (c0, c1)"
    by (cases "uMouse u")
  have "screenXY u a = (Some (sx / (sin \<phi> * x - cos \<phi> * z + 3.5)),
      Some (sy / (sin \<phi> * x - cos \<phi> * z + 3.5)))"
    unfolding screenXY_def s using w by simp
  then show ?thesis
    unfolding distance_def c by (simp only: lift2.simps vsub2.simps fsub.simps glsl_length_Some) simp
qed

lemma repulsionStrength_Some:
  assumes "distance u a = Some d"
  shows "repulsionStrength u a =
    Some (if d < uInteractionRadius u
          then (1 - d / uInteractionRadius u) * uRepulsionStrength u else 0)"
proof (cases "d < uInteractionRadius u")
  case True
  with distance_nonneg[OF assms] have "uInteractionRadius u \<noteq> 0" by linarith
  with True assms show ?thesis by (simp add: repulsionStrength_def)
next
  case False
  with assms show ?thesis by (simp add: repulsionStrength_def)
qed

lemma falloff_mono:
  fixes R S d d' :: real
  assumes "0 < R" "0 \<le> S" "0 \<le> d" "d \<le> d'"
  shows "(if d' < R then (1 - d' / R) * S else 0) \<le> (if d < R then (1 - d / R) * S else 0)"
proof -
  have "d' / R \<le> 1" if "d' < R" using that assms by simp
  moreover have "d / R \<le> d' / R" using assms by (simp add: divide_right_mono)
  ultimately show ?thesis using assms
    by (auto intro!: mult_right_mono mult_nonneg_nonneg)
qed

lemma falloff_near_zero:
  fixes R S d \<epsilon> :: real
  assumes "0 < R" "0 < S" "0 \<le> d" "d < R" "d < \<epsilon> * R / S"
  shows "\<bar>(1 - d / R) * S - S\<bar> < \<epsilon>"
proof -
  have "(1 - d / R) * S - S = - (d * S / R)"
    by (simp add: algebra_simps)
  moreover have "d * S / R < \<epsilon>"
    using assms by (simp add: field_simps)
  moreover have "0 \<le> d * S / R"
    using assms by simp
  ultimately show ?thesis by simp
qed

text \<open>
  C1. With \<open>d\<close> the distance between the projected rest position and the cursor, the
  repulsion magnitude is \<open>(1 - d / uInteractionRadius) * uRepulsionStrength\<close> when
  \<open>d < uInteractionRadius\<close> and 0 otherwise. For a positive radius and a positive
  strength, as the data model has them, the magnitude does not increase with \<open>d\<close>
  (across particles and across frames with the same two parameters), it is 0 from the
  radius on, and it is as close to the strength as one likes for all small enough \<open>d\<close>.
\<close>

theorem repulsion_magnitude:
  assumes R: "0 < uInteractionRadius u" and S: "0 < uRepulsionStrength u"
    and u': "uInteractionRadius u' = uInteractionRadius u"
            "uRepulsionStrength u' = uRepulsionStrength u"
  shows "(distance u a = Some d \<longrightarrow>
            repulsionStrength u a =
              Some (if d < uInteractionRadius u
                    then (1 - d / uInteractionRadius u) * uRepulsionStrength u else 0))
       \<and> (distance u a = Some d \<and> distance u' a' = Some d' \<and> d \<le> d' \<longrightarrow>
            (\<exists>m m'. repulsionStrength u a = Some m \<and> repulsionStrength u' a' = Some m'
                     \<and> m' \<le> m))
       \<and> (distance u a = Some d \<and> uInteractionRadius u \<le> d \<longrightarrow>
            repulsionStrength u a = Some 0)
       \<and> (\<forall>\<epsilon>>0. \<exists>\<delta>>0. \<forall>v b e.
            uInteractionRadius v = uInteractionRadius u \<and>
            uRepulsionStrength v = uRepulsionStrength u \<and>
            distance v b = Some e \<and> e < \<delta> \<longrightarrow>
            (\<exists>m. repulsionStrength v b = Some m \<and> \<bar>m - uRepulsionStrength u\<bar> < \<epsilon>))"
proof (intro conjI impI)
  assume "distance u a = Some d"
  then show "repulsionStrength u a =
      Some (if d < uInteractionRadius u
            then (1 - d / uInteractionRadius u) * uRepulsionStrength u else 0)"
    by (rule repulsionStrength_Some)
next
  assume h: "distance u a = Some d \<and> distance u' a' = Some d' \<and> d \<le> d'"
  then have d0: "0 \<le> d" using distance_nonneg by blast
  from h have dd: "d \<le> d'" by simp
  from h have m: "distance u a = Some d" and m': "distance u' a' = Some d'" by simp_all
  have le: "(if d' < uInteractionRadius u
             then (1 - d' / uInteractionRadius u) * uRepulsionStrength u else 0)
          \<le> (if d < uInteractionRadius u
               then (1 - d / uInteractionRadius u) * uRepulsionStrength u else 0)"
    using R S d0 dd by (intro falloff_mono) simp_all
  show "\<exists>m m'. repulsionStrength u a = Some m \<and> repulsionStrength u' a' = Some m'
                     \<and> m' \<le> m"
    using repulsionStrength_Some[OF m] repulsionStrength_Some[OF m'] le
    unfolding u' by blast
next
  assume "distance u a = Some d \<and> uInteractionRadius u \<le> d"
  then show "repulsionStrength u a = Some 0"
    by (simp add: repulsionStrength_Some)
next
  let ?R = "uInteractionRadius u" and ?S = "uRepulsionStrength u"
  show "\<forall>\<epsilon>>0. \<exists>\<delta>>0. \<forall>v b e.
            uInteractionRadius v = ?R \<and> uRepulsionStrength v = ?S \<and>
            distance v b = Some e \<and> e < \<delta> \<longrightarrow>
            (\<exists>m. repulsionStrength v b = Some m \<and> \<bar>m - ?S\<bar> < \<epsilon>)"
  proof (intro allI impI)
    fix \<epsilon> :: real
    assume e: "0 < \<epsilon>"
    define \<delta> where "\<delta> = min ?R (\<epsilon> * ?R / ?S)"
    have dpos: "0 < \<delta>" using e R S by (simp add: \<delta>_def)
    have "\<exists>m. repulsionStrength v b = Some m \<and> \<bar>m - ?S\<bar> < \<epsilon>"
      if h: "uInteractionRadius v = ?R \<and> uRepulsionStrength v = ?S \<and>
             distance v b = Some e \<and> e < \<delta>" for v b e
    proof -
      from h have d0: "0 \<le> e" using distance_nonneg by blast
      from h have dR: "e < ?R" and dE: "e < \<epsilon> * ?R / ?S" by (simp_all add: \<delta>_def)
      from h have dv: "distance v b = Some e" by simp
      have "repulsionStrength v b = Some ((1 - e / ?R) * ?S)"
        using repulsionStrength_Some[OF dv] h dR by simp
      moreover have "\<bar>(1 - e / ?R) * ?S - ?S\<bar> < \<epsilon>"
        using R S d0 dR dE by (rule falloff_near_zero)
      ultimately show ?thesis by blast
    qed
    with dpos show "\<exists>\<delta>>0. \<forall>v b e.
            uInteractionRadius v = ?R \<and> uRepulsionStrength v = ?S \<and>
            distance v b = Some e \<and> e < \<delta> \<longrightarrow>
            (\<exists>m. repulsionStrength v b = Some m \<and> \<bar>m - ?S\<bar> < \<epsilon>)"
      by blast
  qed
qed

lemma sqrt_square_eq: "0 \<le> y \<Longrightarrow> x = y * y \<Longrightarrow> sqrt x = (y::real)"
  by (simp add: real_sqrt_mult)

lemma screenXY_near:
  "screenXY (square_frame\<lparr>uMouse := c\<rparr>) near_particle = (Some 0.15, Some 0.1)"
  by (simp add: screenXY_def screenPos_def square_frame_def near_particle_def perspective_def
      orb_modelView_def)

lemma distance_near: "distance square_frame near_particle = Some 0.05"
proof -
  have "square_frame = square_frame\<lparr>uMouse := (0.1, 0.1)\<rparr>"
    by (simp add: square_frame_def)
  then have "screenXY square_frame near_particle = (Some 0.15, Some 0.1)"
    using screenXY_near[of "(0.1, 0.1)"] by simp
  moreover have "sqrt (0.05 * 0.05) = (0.05::real)"
    by (rule sqrt_square_eq) simp_all
  ultimately show ?thesis
    by (simp add: distance_def square_frame_def)
qed

lemma distance_away:
  "distance (square_frame\<lparr>uMouse := (- 0.9, 0.1)\<rparr>) near_particle = Some 1.05"
proof -
  have "sqrt (1.05 * 1.05) = (1.05::real)"
    by (rule sqrt_square_eq) simp_all
  then show ?thesis
    by (simp add: distance_def screenXY_near)
qed

theorem repulsion_magnitude_witness:
  "distance square_frame near_particle = Some 0.05
   \<and> repulsionStrength square_frame near_particle = Some 0.46875
   \<and> distance (square_frame\<lparr>uMouse := (- 0.9, 0.1)\<rparr>) near_particle = Some 1.05
   \<and> repulsionStrength (square_frame\<lparr>uMouse := (- 0.9, 0.1)\<rparr>) near_particle = Some 0"
proof -
  let ?v = "square_frame\<lparr>uMouse := (- 0.9, 0.1)\<rparr>"
  have R: "0 < uInteractionRadius square_frame" "0 < uInteractionRadius ?v"
    and S: "0 < uRepulsionStrength square_frame" "0 < uRepulsionStrength ?v"
    and p: "uInteractionRadius square_frame = 0.8" "uRepulsionStrength square_frame = 0.5"
           "uInteractionRadius ?v = 0.8" "uRepulsionStrength ?v = 0.5"
    by (simp_all add: square_frame_def)
  from repulsion_magnitude[OF R(1) S(1), of square_frame near_particle "0.05"] distance_near
  have "repulsionStrength square_frame near_particle = Some 0.46875"
    by (simp add: p)
  moreover
  from repulsion_magnitude[OF R(2) S(2), of ?v near_particle "1.05"] distance_away
  have "repulsionStrength ?v near_particle = Some 0"
    by (simp add: p)
  ultimately show ?thesis
    using distance_near distance_away by simp
qed

subsection \<open>The normalisation at distance zero\<close>

lemma direction_centre: "direction first_frame centre_particle = (None, None)"
  by (simp add: direction_def screenXY_def screenPos_def first_frame_def centre_particle_def
      perspective_def orb_modelView_def)

lemma finalPosition_centre: "finalPosition first_frame centre_particle = (None, None, Some 0)"
proof -
  have "repulsion first_frame centre_particle = (None, None)"
    by (simp add: repulsion_def direction_centre)
  then have "repelledPosition first_frame centre_particle = (None, None, Some 0)"
    by (simp add: repelledPosition_def centre_particle_def)
  then show ?thesis
    by (simp add: finalPosition_def breathing_def centre_particle_def first_frame_def)
qed

text \<open>
  C2. In the first frame, the particle at the centre projects onto the cursor: the
  distance is 0, \<open>normalize\<close> divides by it, the direction is no number, and neither is
  any coordinate of the clip-space position.
\<close>

theorem zero_distance_undefined:
  "distance first_frame centre_particle = Some 0
   \<and> direction first_frame centre_particle = (None, None)
   \<and> gl_Position (vertexShader first_frame centre_particle) = (None, None, None, None)"
proof -
  have "distance first_frame centre_particle = Some 0"
    by (simp add: distance_def screenXY_def screenPos_def first_frame_def
      centre_particle_def perspective_def orb_modelView_def)
  moreover have mv: "modelViewMatrix first_frame = orb_modelView 0"
    and pr: "projectionMatrix first_frame = perspective (tan (75 * pi / 360)) (16 / 9)"
    by (simp_all add: first_frame_def)
  have "modelViewPosition first_frame centre_particle = (None, None, None, None)"
    by (simp add: modelViewPosition_def finalPosition_centre mv orb_modelView_def)
  then have "gl_Position (vertexShader first_frame centre_particle) = (None, None, None, None)"
    by (simp add: vertexShader_def pr perspective_def)
  ultimately show ?thesis using direction_centre by simp
qed

subsection \<open>Breathing and the z coordinate\<close>

text \<open>
  C8. The repulsion leaves the z coordinate at its rest value, and the z coordinate of the
  displaced position is the rest value plus the breathing term, whatever the cursor, the
  interaction radius and the repulsion strength are.
\<close>

theorem repulsion_leaves_z:
  "snd (snd (repelledPosition u a)) = Some (snd (snd (restingPosition a)))
   \<and> snd (snd (finalPosition u a)) =
       Some (snd (snd (restingPosition a)) + sin (uTime u * 0.5 + aRandom a * 10.0) * 0.01)
   \<and> snd (snd (finalPosition
        (u\<lparr>uMouse := c, uInteractionRadius := R, uRepulsionStrength := S\<rparr>) a)) =
       snd (snd (finalPosition u a))"
  by (cases "restingPosition a")
    (simp add: finalPosition_def repelledPosition_def breathing_def split: prod.splits)

text \<open>
  C10. The breathing adds the same offset \<open>sin (0.5 * uTime + 10 * aRandom) * 0.01\<close> to
  x and to z, and the cosine of the same phase times 0.01 to y; each offset is at most
  0.01 in absolute value.
\<close>

theorem breathing_offsets:
  "finalPosition u a =
     (case repelledPosition u a of (x, y, z) \<Rightarrow>
        (fadd x (Some (sin (0.5 * uTime u + 10 * aRandom a) * 0.01)),
         fadd y (Some (cos (0.5 * uTime u + 10 * aRandom a) * 0.01)),
         fadd z (Some (sin (0.5 * uTime u + 10 * aRandom a) * 0.01))))
   \<and> \<bar>sin (0.5 * uTime u + 10 * aRandom a) * 0.01\<bar> \<le> 0.01
   \<and> \<bar>cos (0.5 * uTime u + 10 * aRandom a) * 0.01\<bar> \<le> 0.01"
proof -
  have e: "uTime u * 0.5 + aRandom a * 10.0 = 0.5 * uTime u + 10 * aRandom a"
    by simp
  have b: "\<bar>sin t * 0.01\<bar> \<le> 0.01" "\<bar>cos t * 0.01\<bar> \<le> 0.01" for t :: real
    by (simp_all add: abs_mult)
  have "finalPosition u a =
     (case repelledPosition u a of (x, y, z) \<Rightarrow>
        (fadd x (Some (sin (0.5 * uTime u + 10 * aRandom a) * 0.01)),
         fadd y (Some (cos (0.5 * uTime u + 10 * aRandom a) * 0.01)),
         fadd z (Some (sin (0.5 * uTime u + 10 * aRandom a) * 0.01))))"
    unfolding finalPosition_def breathing_def e by (simp split: prod.splits)
  with b show ?thesis by blast
qed

subsection \<open>Colour\<close>



section \<open>Properties of the fragment shader\<close>

lemma alpha_of_inner: "alpha_of (Some 0.4) = Some 1"
  by (simp add: alpha_of_def glsl_smoothstep_def)

lemma alpha_of_between: "alpha_of (Some 0.48) = Some 0.352"
  by (simp add: alpha_of_def glsl_smoothstep_def)

lemma alpha_of_outer: "alpha_of (Some 0.6) = Some 0"
  by (simp add: alpha_of_def glsl_smoothstep_def)

text \<open>
  C7. A fragment at distance 0.4 from the centre of the sprite gets alpha 1; at distance
  0.48 it gets an alpha strictly between 0 and 1; at distance 0.6 its alpha is below 0.01
  and it is discarded.
\<close>

theorem alpha_mask_scenarios:
  assumes "sprite_dist p1 = Some 0.4" "sprite_dist p2 = Some 0.48" "sprite_dist p3 = Some 0.6"
  shows "fragmentShader c p1 = Some (vec4_of c (Some 1))
       \<and> (\<exists>\<alpha>. 0 < \<alpha> \<and> \<alpha> < 1 \<and> fragmentShader c p2 = Some (vec4_of c (Some \<alpha>)))
       \<and> (\<exists>\<alpha>. alpha_of (sprite_dist p3) = Some \<alpha> \<and> \<alpha> < 0.01)
       \<and> fragmentShader c p3 = None"
proof -
  have "fragmentShader c p1 = Some (vec4_of c (Some 1))"
    unfolding fragmentShader_def assms alpha_of_inner by simp
  moreover have "fragmentShader c p2 = Some (vec4_of c (Some 0.352))"
    unfolding fragmentShader_def assms alpha_of_between by simp
  then have "\<exists>\<alpha>. 0 < \<alpha> \<and> \<alpha> < 1 \<and> fragmentShader c p2 = Some (vec4_of c (Some \<alpha>))"
    by (intro exI[of _ "0.352"]) simp
  moreover have "alpha_of (sprite_dist p3) = Some 0" "fragmentShader c p3 = None"
    unfolding fragmentShader_def assms alpha_of_outer by simp_all
  ultimately show ?thesis by simp
qed

lemma sprite_dist_horizontal: "0 \<le> r \<Longrightarrow> sprite_dist (0.5 + r, 0.5) = Some r"
  by (simp add: sprite_dist_def)

lemma sprite_dist_corner: "sprite_dist (0.86, 0.98) = Some 0.6"
proof -
  have "sqrt (0.6 * 0.6) = (0.6::real)"
    by (rule sqrt_square_eq) simp_all
  then show ?thesis
    by (simp add: sprite_dist_def)
qed

theorem alpha_mask_scenarios_witness:
  "sprite_dist (0.9, 0.5) = Some 0.4 \<and> sprite_dist (0.98, 0.5) = Some 0.48
   \<and> sprite_dist (0.86, 0.98) = Some 0.6
   \<and> fragmentShader (Some 1, Some 0, Some 0) (0.9, 0.5) = Some (Some 1, Some 0, Some 0, Some 1)
   \<and> fragmentShader (Some 1, Some 0, Some 0) (0.86, 0.98) = None"
proof -
  have 1: "sprite_dist (0.9, 0.5) = Some 0.4"
    using sprite_dist_horizontal[of "0.4"] by simp
  have 2: "sprite_dist (0.98, 0.5) = Some 0.48"
    using sprite_dist_horizontal[of "0.48"] by simp
  show ?thesis
    using alpha_mask_scenarios[OF 1 2 sprite_dist_corner, of "(Some 1, Some 0, Some 0)"] 1 2
      sprite_dist_corner
    by simp
qed

section \<open>Properties of the rounding\<close>

lemma round_even_err: "\<bar>of_int (round_even y) - y\<bar> \<le> 1 / 2"
  unfolding round_even_def by (auto simp: abs_if) linarith+

lemma round_even_unique: "\<bar>y - of_int n\<bar> < 1 / 2 \<Longrightarrow> round_even y = n"
proof -
  assume a: "\<bar>y - of_int n\<bar> < 1 / 2"
  have "\<bar>of_int (round_even y) - y\<bar> \<le> 1 / 2"
    by (rule round_even_err)
  with a have "\<bar>real_of_int (round_even y) - real_of_int n\<bar> < 1"
    by linarith
  then have "\<bar>real_of_int (round_even y - n)\<bar> < 1"
    by simp
  then have "\<bar>round_even y - n\<bar> < 1"
    by linarith
  then show ?thesis by simp
qed

lemma round_to_0 [simp]: "round_to p emin 0 = 0"
  by (simp add: round_to_def)

lemma fl64_0 [simp]: "fl64 0 = 0"
  by (simp add: fl64_def)

lemma fround_0 [simp]: "fround 0 = 0"
  by (simp add: fround_def)

lemma quantum_pos: "0 < quantum p emin x"
  by (simp add: quantum_def)

lemma round_to_err: "\<bar>round_to p emin x - x\<bar> \<le> quantum p emin x / 2"
proof (cases "x = 0")
  case True
  then show ?thesis using quantum_pos[of p emin x] by simp
next
  case False
  let ?q = "quantum p emin x"
  have q: "0 < ?q"
    by (rule quantum_pos)
  have "\<bar>round_to p emin x - x\<bar> = \<bar>?q * (of_int (round_even (x / ?q)) - x / ?q)\<bar>"
    using False q by (simp add: round_to_def algebra_simps)
  also have "\<dots> = ?q * \<bar>of_int (round_even (x / ?q)) - x / ?q\<bar>"
    using q by (simp add: abs_mult)
  also have "\<dots> \<le> ?q * (1 / 2)"
    using q round_even_err[of "x / ?q"] by (intro mult_left_mono) simp_all
  finally show ?thesis by simp
qed

lemma quantum_le:
  assumes "x \<noteq> 0"
  shows "quantum p emin x \<le>
    max (\<bar>x\<bar> * 2 powr (1 - real p)) (2 powr (of_int emin - real p + 1))"
proof (cases "emin \<le> \<lfloor>log 2 \<bar>x\<bar>\<rfloor>")
  case True
  then have "quantum p emin x = 2 powr (of_int \<lfloor>log 2 \<bar>x\<bar>\<rfloor> + (1 - real p))"
    by (simp add: quantum_def max_def algebra_simps)
  also have "\<dots> = 2 powr of_int \<lfloor>log 2 \<bar>x\<bar>\<rfloor> * 2 powr (1 - real p)"
    by (simp add: powr_add)
  also have "2 powr of_int \<lfloor>log 2 \<bar>x\<bar>\<rfloor> \<le> 2 powr log 2 \<bar>x\<bar>"
    by simp
  then have "2 powr of_int \<lfloor>log 2 \<bar>x\<bar>\<rfloor> * 2 powr (1 - real p) \<le> \<bar>x\<bar> * 2 powr (1 - real p)"
    using assms by (intro mult_right_mono) simp_all
  finally show ?thesis by simp
next
  case False
  then have "quantum p emin x = 2 powr (of_int emin - real p + 1)"
    by (simp add: quantum_def max_def algebra_simps)
  then show ?thesis by simp
qed

lemma fl64_err: "\<bar>x\<bar> \<le> 4 \<Longrightarrow> \<bar>fl64 x - x\<bar> \<le> 1 / 2 ^ 51"
proof (cases "x = 0")
  case True
  then show ?thesis by simp
next
  case False
  assume b: "\<bar>x\<bar> \<le> 4"
  have "quantum 53 (- 1022) x \<le>
      max (\<bar>x\<bar> * 2 powr (1 - real 53)) (2 powr (of_int (- 1022) - real 53 + 1))"
    using False by (rule quantum_le)
  also have "\<dots> \<le> max (4 * (1 / 2 ^ 52)) (1 / 2 ^ 1074)"
    using b by (intro max.mono) (simp_all add: powr_minus_divide powr_realpow[symmetric])
  also have "\<dots> \<le> 1 / 2 ^ 50"
    by simp
  finally have "quantum 53 (- 1022) x / 2 \<le> 1 / 2 ^ 51"
    by simp
  with round_to_err[of 53 "- 1022" x] show ?thesis
    unfolding fl64_def by linarith
qed

lemma fround_err: "\<bar>x\<bar> \<le> 8 / 5 \<Longrightarrow> \<bar>fround x - x\<bar> \<le> 1 / (10 * 2 ^ 20)"
proof (cases "x = 0")
  case True
  then show ?thesis by simp
next
  case False
  assume b: "\<bar>x\<bar> \<le> 8 / 5"
  have "quantum 24 (- 126) x \<le>
      max (\<bar>x\<bar> * 2 powr (1 - real 24)) (2 powr (of_int (- 126) - real 24 + 1))"
    using False by (rule quantum_le)
  also have "\<dots> \<le> max (8 / 5 * (1 / 2 ^ 23)) (1 / 2 ^ 149)"
    using b by (intro max.mono) (simp_all add: powr_minus_divide powr_realpow[symmetric])
  also have "\<dots> \<le> 1 / (5 * 2 ^ 20)"
    by simp
  finally have "quantum 24 (- 126) x / 2 \<le> 1 / (10 * 2 ^ 20)"
    by simp
  with round_to_err[of 24 "- 126" x] show ?thesis
    unfolding fround_def by linarith
qed

text \<open>
  A number in the binade of exponent \<open>e\<close> that is less than half a quantum away from
  the \<open>n\<close>-th multiple of the quantum is rounded to that multiple.
\<close>

lemma round_to_cell:
  assumes lo: "2 powr of_int e \<le> \<bar>x\<bar>" and hi: "\<bar>x\<bar> < 2 powr (of_int e + 1)"
    and e: "emin \<le> e"
    and n: "\<bar>x / 2 powr of_int (e - int p + 1) - of_int n\<bar> < 1 / 2"
  shows "round_to p emin x = 2 powr of_int (e - int p + 1) * of_int n"
proof -
  have "0 < 2 powr real_of_int e"
    by simp
  with lo have x: "0 < \<bar>x\<bar>"
    by linarith
  then have "\<lfloor>log 2 \<bar>x\<bar>\<rfloor> = e"
    using lo hi by (simp add: floor_log_eq_powr_iff)
  with e have q: "quantum p emin x = 2 powr of_int (e - int p + 1)"
    by (simp add: quantum_def max_def)
  from n have "round_even (x / 2 powr of_int (e - int p + 1)) = n"
    by (rule round_even_unique)
  with q x show ?thesis
    by (simp add: round_to_def)
qed

lemma fl64_13_32: "fl64 (13 / 32) = 13 / 32"
  unfolding fl64_def
  by (subst round_to_cell[where e = "- 2" and n = 7318349394477056])
    (simp_all add: powr_minus_divide)

lemma fl64_m19_32: "fl64 (- (19 / 32)) = - (19 / 32)"
  unfolding fl64_def
  by (subst round_to_cell[where e = "- 1" and n = "- 5348024557502464"])
    (simp_all add: powr_minus_divide)

lemma fround_near_x:
  assumes "3 / 2 * (1 - 1 / 2 ^ 31) * (40232478717 / 50000000000 - 1 / 2 ^ 51) - 1 / 2 ^ 34 \<le> x"
    and "x \<le> 3 / 2 * (16092991487 / 20000000000 + 1 / 2 ^ 51) + 1 / 2 ^ 34"
  shows "fround x = 10124835 / 8388608"
proof -
  have "fround x = 2 powr of_int (0 - int 24 + 1) * of_int 10124835"
    unfolding fround_def using assms
    by (intro round_to_cell) (simp_all add: powr_minus_divide abs_if field_simps)
  then show ?thesis by (simp add: powr_minus_divide)
qed

lemma fround_near_z:
  assumes "3 / 2 * (- (19 / 32) - 1 / 2 ^ 51) - 1 / 2 ^ 34 \<le> z"
    and "z \<le> 3 / 2 * (1 - 1 / 2 ^ 31) * (- (19 / 32) + 1 / 2 ^ 51) + 1 / 2 ^ 34"
  shows "fround z = - (57 / 64)"
proof -
  have "fround z = 2 powr of_int (- 1 - int 24 + 1) * of_int (- 14942208)"
    unfolding fround_def using assms
    by (intro round_to_cell) (simp_all add: powr_minus_divide abs_if field_simps)
  then show ?thesis by (simp add: powr_minus_divide)
qed

text \<open>The rounded product of two approximations.\<close>

lemma fl64_mul_err:
  assumes a: "\<bar>a - A\<bar> \<le> ea" and b: "\<bar>b - B\<bar> \<le> eb"
    and A: "\<bar>A\<bar> \<le> 3 / 2" and B: "\<bar>B\<bar> \<le> 1" and ea: "ea \<le> 1 / 2" and eb: "eb \<le> 1"
  shows "\<bar>fl64 (a * b) - A * B\<bar> \<le> 2 * ea + 3 / 2 * eb + 1 / 2 ^ 51"
proof -
  from a A ea have a2: "\<bar>a\<bar> \<le> 2" by linarith
  from b B eb have b2: "\<bar>b\<bar> \<le> 2" by linarith
  have "\<bar>a * b\<bar> \<le> 2 * 2"
    unfolding abs_mult using a2 b2 by (intro mult_mono) simp_all
  then have r: "\<bar>fl64 (a * b) - a * b\<bar> \<le> 1 / 2 ^ 51"
    by (intro fl64_err) simp
  have "a * b - A * B = (a - A) * b + A * (b - B)"
    by (simp add: algebra_simps)
  then have "\<bar>a * b - A * B\<bar> \<le> \<bar>a - A\<bar> * \<bar>b\<bar> + \<bar>A\<bar> * \<bar>b - B\<bar>"
    by (metis abs_mult abs_triangle_ineq)
  also have "\<dots> \<le> ea * 2 + 3 / 2 * eb"
    using a b A b2 by (intro add_mono mult_mono) (auto intro: order_trans[OF abs_ge_zero])
  finally show ?thesis using r by linarith
qed

lemma sin_lipschitz: "\<bar>sin (x::real) - sin y\<bar> \<le> \<bar>x - y\<bar>"
proof -
  have "\<bar>sin x - sin y\<bar> = 2 * \<bar>sin ((x - y) / 2)\<bar> * \<bar>cos ((x + y) / 2)\<bar>"
    by (simp add: sin_diff_sin abs_mult)
  also have "\<dots> \<le> 2 * \<bar>(x - y) / 2\<bar> * 1"
    by (intro mult_mono abs_sin_x_le_abs_x) simp_all
  finally show ?thesis by simp
qed

lemma cos_lipschitz: "\<bar>cos (x::real) - cos y\<bar> \<le> \<bar>x - y\<bar>"
proof -
  have "\<bar>cos x - cos y\<bar> = 2 * \<bar>sin ((x + y) / 2)\<bar> * \<bar>sin ((y - x) / 2)\<bar>"
    by (simp add: cos_diff_cos abs_mult)
  also have "\<dots> \<le> 2 * 1 * \<bar>(y - x) / 2\<bar>"
    by (intro mult_mono abs_sin_x_le_abs_x) simp_all
  finally show ?thesis by simp
qed

section \<open>Properties of the particle generation\<close>

subsection \<open>One pushed point\<close>

lemma length_pushed_point [simp]: "length (pushed_point M src k) = 3"
  by (simp add: pushed_point_def)

lemma length_exact_point [simp]: "length (exact_point M src k) = 3"
  by (simp add: exact_point_def)

lemma sphere_point_norm:
  fixes \<rho> :: real
  shows "(\<rho> * sin \<phi> * cos \<theta>)\<^sup>2 + (\<rho> * sin \<phi> * sin \<theta>)\<^sup>2 + (\<rho> * cos \<phi>)\<^sup>2 = \<rho>\<^sup>2"
proof -
  have "(\<rho> * sin \<phi> * cos \<theta>)\<^sup>2 + (\<rho> * sin \<phi> * sin \<theta>)\<^sup>2 + (\<rho> * cos \<phi>)\<^sup>2 =
      \<rho>\<^sup>2 * ((sin \<phi>)\<^sup>2 * ((cos \<theta>)\<^sup>2 + (sin \<theta>)\<^sup>2) + (cos \<phi>)\<^sup>2)"
    by algebra
  also have "\<dots> = \<rho>\<^sup>2"
    unfolding sin_cos_squared_add2 mult_1_right sin_cos_squared_add by simp
  finally show ?thesis .
qed

lemma radius_bounds:
  assumes "0 \<le> v" "v < 1"
  shows "0 \<le> arrangementRadius * root 3 v" "arrangementRadius * root 3 v \<le> 3 / 2"
proof -
  have "0 \<le> root 3 v" "root 3 v < 1"
    using assms by simp_all
  then show "0 \<le> arrangementRadius * root 3 v" "arrangementRadius * root 3 v \<le> 3 / 2"
    by (simp_all add: arrangementRadius_def)
qed

text \<open>In exact arithmetic the point lies within the arrangement radius.\<close>

lemma exact_point_norm:
  assumes "0 \<le> src (k + 2)" "src (k + 2) < 1"
  shows "(exact_point M src k ! 0)\<^sup>2 + (exact_point M src k ! 1)\<^sup>2
      + (exact_point M src k ! 2)\<^sup>2 \<le> 9 / 4"
    and "norm3 (exact_point M src k) \<le> arrangementRadius"
proof -
  let ?\<rho> = "arrangementRadius * root 3 (src (k + 2))"
  have s: "(exact_point M src k ! 0)\<^sup>2 + (exact_point M src k ! 1)\<^sup>2
      + (exact_point M src k ! 2)\<^sup>2 = ?\<rho>\<^sup>2"
    unfolding exact_point_def by (simp add: sphere_point_norm)
  have "?\<rho>\<^sup>2 \<le> (3 / 2)\<^sup>2"
    using radius_bounds[OF assms] by (intro power_mono) simp_all
  with s show "(exact_point M src k ! 0)\<^sup>2 + (exact_point M src k ! 1)\<^sup>2
      + (exact_point M src k ! 2)\<^sup>2 \<le> 9 / 4"
    by (simp add: power2_eq_square)
  have "norm3 (exact_point M src k) = sqrt (?\<rho>\<^sup>2)"
    using s by (simp add: exact_point_def)
  also have "\<dots> = ?\<rho>"
    using radius_bounds(1)[OF assms] by simp
  finally show "norm3 (exact_point M src k) \<le> arrangementRadius"
    using radius_bounds(2)[OF assms] by (simp add: arrangementRadius_def)
qed

lemma exact_point_coordinate:
  assumes "0 \<le> src (k + 2)" "src (k + 2) < 1" "j < 3"
  shows "\<bar>exact_point M src k ! j\<bar> \<le> 3 / 2"
proof -
  let ?X = "exact_point M src k"
  from assms(3) consider "j = 0" | "j = 1" | "j = 2"
    by linarith
  then have "(?X ! j)\<^sup>2 \<le> (?X ! 0)\<^sup>2 + (?X ! 1)\<^sup>2 + (?X ! 2)\<^sup>2"
    by cases simp_all
  also have "\<dots> \<le> (3 / 2)\<^sup>2"
    using exact_point_norm(1)[of src k M] assms(1,2) by (simp add: power2_eq_square)
  finally show ?thesis
    by (simp add: abs_le_square_iff[symmetric])
qed

text \<open>
  With an accurate engine each coordinate the loop pushes is within \<open>2\<^sup>-\<^sup>3\<^sup>5\<close> of the
  coordinate of the exact point.
\<close>

lemma pushed_point_err:
  assumes acc: "accurate M" and v: "0 \<le> src (k + 2)" "src (k + 2) < 1" and j: "j < 3"
  shows "\<bar>pushed_point M src k ! j - exact_point M src k ! j\<bar> \<le> 1 / 2 ^ 35"
proof -
  let ?\<rho> = "arrangementRadius * root 3 (src (k + 2))"
  let ?\<phi> = "phi_of M src k" and ?\<theta> = "theta_of src k"
  let ?r = "r_of M src k"
  let ?w = "fl64 (?r * Math_sin M ?\<phi>)"
  have s: "\<bar>Math_sin M t - sin t\<bar> \<le> 1 / 2 ^ 40"
    and c: "\<bar>Math_cos M t - cos t\<bar> \<le> 1 / 2 ^ 40" for t
    using acc by (simp_all add: accurate_def)
  have cb: "\<bar>Math_cbrt M (src (k + 2)) - root 3 (src (k + 2))\<bar> \<le> 1 / 2 ^ 40"
    using acc v by (simp add: accurate_def)
  have root: "\<bar>root 3 (src (k + 2))\<bar> \<le> 1"
    using v by simp
  have \<rho>: "\<bar>?\<rho>\<bar> \<le> 3 / 2"
    using radius_bounds[OF v] by simp
  have "\<bar>fl64 (arrangementRadius * Math_cbrt M (src (k + 2))) - arrangementRadius * root 3 (src (k + 2))\<bar>
      \<le> 2 * 0 + 3 / 2 * (1 / 2 ^ 40) + 1 / 2 ^ 51"
    using cb root by (intro fl64_mul_err) (simp_all add: arrangementRadius_def)
  then have r: "\<bar>?r - ?\<rho>\<bar> \<le> 1 / 2 ^ 39"
    by (simp add: r_of_def)
  have "\<bar>?w - ?\<rho> * sin ?\<phi>\<bar> \<le> 2 * (1 / 2 ^ 39) + 3 / 2 * (1 / 2 ^ 40) + 1 / 2 ^ 51"
    using r s \<rho> by (intro fl64_mul_err) simp_all
  then have w: "\<bar>?w - ?\<rho> * sin ?\<phi>\<bar> \<le> 1 / 2 ^ 37"
    by simp
  have \<rho>s: "\<bar>?\<rho> * sin ?\<phi>\<bar> \<le> 3 / 2"
  proof -
    have "\<bar>?\<rho> * sin ?\<phi>\<bar> \<le> 3 / 2 * 1"
      unfolding abs_mult using \<rho> by (intro mult_mono) simp_all
    then show ?thesis by simp
  qed
  have "\<bar>fl64 (?w * Math_cos M ?\<theta>) - ?\<rho> * sin ?\<phi> * cos ?\<theta>\<bar>
      \<le> 2 * (1 / 2 ^ 37) + 3 / 2 * (1 / 2 ^ 40) + 1 / 2 ^ 51"
    using w c \<rho>s by (intro fl64_mul_err) simp_all
  then have x: "\<bar>fl64 (?w * Math_cos M ?\<theta>) - ?\<rho> * sin ?\<phi> * cos ?\<theta>\<bar> \<le> 1 / 2 ^ 35"
    by simp
  have "\<bar>fl64 (?w * Math_sin M ?\<theta>) - ?\<rho> * sin ?\<phi> * sin ?\<theta>\<bar>
      \<le> 2 * (1 / 2 ^ 37) + 3 / 2 * (1 / 2 ^ 40) + 1 / 2 ^ 51"
    using w s \<rho>s by (intro fl64_mul_err) simp_all
  then have y: "\<bar>fl64 (?w * Math_sin M ?\<theta>) - ?\<rho> * sin ?\<phi> * sin ?\<theta>\<bar> \<le> 1 / 2 ^ 35"
    by simp
  have "\<bar>fl64 (?r * Math_cos M ?\<phi>) - ?\<rho> * cos ?\<phi>\<bar>
      \<le> 2 * (1 / 2 ^ 39) + 3 / 2 * (1 / 2 ^ 40) + 1 / 2 ^ 51"
    using r c \<rho> by (intro fl64_mul_err) simp_all
  then have z: "\<bar>fl64 (?r * Math_cos M ?\<phi>) - ?\<rho> * cos ?\<phi>\<bar> \<le> 1 / 2 ^ 35"
    by simp
  from j consider "j = 0" | "j = 1" | "j = 2"
    by linarith
  then show ?thesis
  proof cases
    case 1
    with x show ?thesis by (simp add: pushed_point_def exact_point_def)
  next
    case 2
    with y show ?thesis by (simp add: pushed_point_def exact_point_def)
  next
    case 3
    with z show ?thesis by (simp add: pushed_point_def exact_point_def)
  qed
qed

text \<open>
  A stored coordinate is within \<open>2\<^sup>-\<^sup>2\<^sup>3\<close> of the exact one, and the norm of the stored
  triple is within the arrangement radius up to the factor \<open>1 + 2\<^sup>-\<^sup>2\<^sup>2\<close>.
\<close>

lemma stored_coordinate_err:
  assumes "accurate M" "0 \<le> src (k + 2)" "src (k + 2) < 1" "j < 3"
  shows "\<bar>fround (pushed_point M src k ! j) - exact_point M src k ! j\<bar> \<le> 1 / 2 ^ 23"
proof -
  let ?x = "pushed_point M src k ! j" and ?X = "exact_point M src k ! j"
  have e: "\<bar>?x - ?X\<bar> \<le> 1 / 2 ^ 35"
    using assms by (intro pushed_point_err)
  have X: "\<bar>?X\<bar> \<le> 3 / 2"
    using assms(2-4) by (intro exact_point_coordinate)
  have "(1::real) / 2 ^ 35 \<le> 1 / 10"
    by simp
  with e X have "\<bar>?x\<bar> \<le> 8 / 5"
    by linarith
  then have f: "\<bar>fround ?x - ?x\<bar> \<le> 1 / (10 * 2 ^ 20)"
    by (rule fround_err)
  have "(1::real) / (10 * 2 ^ 20) + 1 / 2 ^ 35 \<le> 1 / 2 ^ 23"
    by simp
  with e f show ?thesis by linarith
qed

lemma square_of_approximation:
  fixes x X t :: real
  assumes "\<bar>x - X\<bar> \<le> t" "\<bar>X\<bar> \<le> 3 / 2"
  shows "x\<^sup>2 \<le> X\<^sup>2 + 3 * t + t\<^sup>2"
proof -
  from assms have t: "0 \<le> t" by linarith
  from assms have "\<bar>x\<bar> \<le> \<bar>X\<bar> + t" by linarith
  then have "\<bar>x\<bar>\<^sup>2 \<le> (\<bar>X\<bar> + t)\<^sup>2"
    by (intro power_mono) simp_all
  also have "\<dots> = X\<^sup>2 + 2 * \<bar>X\<bar> * t + t\<^sup>2"
    by (simp add: power2_sum)
  also have "2 * \<bar>X\<bar> * t \<le> 3 * t"
    using assms(2) t by (intro mult_right_mono) simp_all
  finally show ?thesis by simp
qed

lemma stored_point_norm:
  assumes "accurate M" "0 \<le> src (k + 2)" "src (k + 2) < 1"
  shows "norm3 (map fround (pushed_point M src k)) \<le> arrangementRadius * (1 + 1 / 2 ^ 22)"
proof -
  let ?x = "\<lambda>j. fround (pushed_point M src k ! j)" and ?X = "\<lambda>j. exact_point M src k ! j"
  have sq: "(?x j)\<^sup>2 \<le> (?X j)\<^sup>2 + 3 * (1 / 2 ^ 23) + (1 / 2 ^ 23)\<^sup>2" if "j < 3" for j
    using assms that
    by (intro square_of_approximation stored_coordinate_err exact_point_coordinate)
  have "(?X 0)\<^sup>2 + (?X 1)\<^sup>2 + (?X 2)\<^sup>2 \<le> 9 / 4"
    using assms(2,3) by (intro exact_point_norm)
  with sq[of 0] sq[of 1] sq[of 2]
  have "(?x 0)\<^sup>2 + (?x 1)\<^sup>2 + (?x 2)\<^sup>2 \<le> 9 / 4 + 9 * (1 / 2 ^ 23) + 3 * (1 / 2 ^ 23)\<^sup>2"
    by simp
  also have "\<dots> \<le> (3 / 2 * (1 + 1 / 2 ^ 22))\<^sup>2"
    by (simp add: power2_eq_square)
  finally have "sqrt ((?x 0)\<^sup>2 + (?x 1)\<^sup>2 + (?x 2)\<^sup>2) \<le> 3 / 2 * (1 + 1 / 2 ^ 22)"
    by (intro real_le_lsqrt) simp_all
  moreover have "map fround (pushed_point M src k) = [?x 0, ?x 1, ?x 2]"
    by (simp add: pushed_point_def)
  ultimately show ?thesis
    by (simp add: arrangementRadius_def)
qed

subsection \<open>The loop\<close>

lemma loop_body_eq:
  "loop_body s =
     s\<lparr>drawn := drawn s + 4,
       positions := positions s @ pushed_point (Math s) (random_source s) (drawn s),
       restingPositions := restingPositions s @ pushed_point (Math s) (random_source s) (drawn s),
       randoms := randoms s @ [random_source s (drawn s + 3)]\<rparr>"
  by (simp add: loop_body_def Math_random_def pushed_point_def theta_of_def phi_of_def r_of_def
      Let_def eval_nat_numeral)

lemma funpow_loop_body:
  "(loop_body ^^ n) s =
     s\<lparr>drawn := drawn s + 4 * n,
       positions := positions s @ pushed_points (Math s) (random_source s) (drawn s) n,
       restingPositions := restingPositions s @ pushed_points (Math s) (random_source s) (drawn s) n,
       randoms := randoms s @ pushed_seeds (random_source s) (drawn s) n\<rparr>"
proof (induction n)
  case 0
  show ?case by (simp add: pushed_points_def pushed_seeds_def)
next
  case (Suc n)
  have "(loop_body ^^ Suc n) s = loop_body ((loop_body ^^ n) s)"
    by simp
  also have "\<dots> = loop_body (s\<lparr>drawn := drawn s + 4 * n,
       positions := positions s @ pushed_points (Math s) (random_source s) (drawn s) n,
       restingPositions := restingPositions s @ pushed_points (Math s) (random_source s) (drawn s) n,
       randoms := randoms s @ pushed_seeds (random_source s) (drawn s) n\<rparr>)"
    by (simp only: Suc)
  also have "\<dots> = s\<lparr>drawn := drawn s + 4 * Suc n,
       positions := positions s @ pushed_points (Math s) (random_source s) (drawn s) (Suc n),
       restingPositions :=
         restingPositions s @ pushed_points (Math s) (random_source s) (drawn s) (Suc n),
       randoms := randoms s @ pushed_seeds (random_source s) (drawn s) (Suc n)\<rparr>"
    by (subst loop_body_eq) (simp add: pushed_points_def pushed_seeds_def)
  finally show ?case .
qed

lemma fill_loop_funpow: "fill_loop i s = (loop_body ^^ (PARTICLE_COUNT s - i)) s"
proof (induction i s rule: fill_loop.induct)
  case (1 i s)
  show ?case
  proof (cases "i < PARTICLE_COUNT s")
    case True
    then have "PARTICLE_COUNT s - i = Suc (PARTICLE_COUNT s - Suc i)"
      by simp
    moreover have "PARTICLE_COUNT (loop_body s) = PARTICLE_COUNT s"
      by (simp add: loop_body_eq)
    ultimately show ?thesis
      using 1[OF True] True
      by (subst fill_loop.simps) (simp add: funpow_Suc_right del: funpow.simps)
  next
    case False
    then show ?thesis by (subst fill_loop.simps) simp
  qed
qed

lemma fill_loop_0:
  "fill_loop 0 s =
     s\<lparr>drawn := drawn s + 4 * PARTICLE_COUNT s,
       positions := positions s @ pushed_points (Math s) (random_source s) (drawn s) (PARTICLE_COUNT s),
       restingPositions :=
         restingPositions s @ pushed_points (Math s) (random_source s) (drawn s) (PARTICLE_COUNT s),
       randoms := randoms s @ pushed_seeds (random_source s) (drawn s) (PARTICLE_COUNT s)\<rparr>"
  by (simp add: fill_loop_funpow funpow_loop_body)

lemma length_concat_triples:
  "(\<And>i. length (f i) = 3) \<Longrightarrow> length (concat (map f [0..<n])) = 3 * n"
  by (induction n) simp_all

lemma length_pushed_points [simp]: "length (pushed_points M src d n) = 3 * n"
  unfolding pushed_points_def by (rule length_concat_triples) simp

lemma length_pushed_seeds [simp]: "length (pushed_seeds src d n) = n"
  by (simp add: pushed_seeds_def)

lemma triple_of_concat:
  assumes len: "\<And>j. length (f j) = 3"
  shows "i < n \<Longrightarrow> take 3 (drop (3 * i) (concat (map f [0..<n]))) = f i"
proof (induction n)
  case 0
  then show ?case by simp
next
  case (Suc n)
  have l: "length (concat (map f [0..<n])) = 3 * n"
    using len by (rule length_concat_triples)
  show ?case
  proof (cases "i < n")
    case True
    then have "3 * i + 3 \<le> 3 * n" by simp
    with Suc.IH[OF True] l show ?thesis by simp
  next
    case False
    with Suc.prems have "i = n" by simp
    with l len show ?thesis by simp
  qed
qed

lemma pushed_points_triple:
  "i < n \<Longrightarrow> take 3 (drop (3 * i) (pushed_points M src d n)) = pushed_point M src (d + 4 * i)"
  unfolding pushed_points_def by (rule triple_of_concat) simp_all

lemma pushed_points_nth:
  assumes "i < n" "k < 3"
  shows "pushed_points M src d n ! (3 * i + k) = pushed_point M src (d + 4 * i) ! k"
proof -
  from assms have "3 * i + k < length (pushed_points M src d n)" by simp
  then have "take 3 (drop (3 * i) (pushed_points M src d n)) ! k =
      pushed_points M src d n ! (3 * i + k)"
    using assms by simp
  with pushed_points_triple[OF assms(1)] show ?thesis by simp
qed

lemma pushed_seeds_nth: "i < n \<Longrightarrow> pushed_seeds src d n ! i = src (d + 4 * i + 3)"
  by (simp add: pushed_seeds_def)

lemma stored_triple:
  "i < n \<Longrightarrow> take 3 (drop (3 * i) (map fround (pushed_points M src d n))) =
     map fround (pushed_point M src (d + 4 * i))"
  by (simp add: pushed_points_triple drop_map take_map)

subsection \<open>Running the statements\<close>

lemmas stmt_defs = scene_remove_def geometry_dispose_def material_dispose_def
  new_BufferGeometry_def declare_arrays_def for_loop_def setAttribute_def
  new_ShaderMaterial_def new_Points_def scene_add_def

lemma length_trace: "run fs s = Some s' \<Longrightarrow> length (trace fs s) = length fs"
  by (induction fs arbitrary: s) (auto split: option.splits)

lemma last_trace: "run fs s = Some s' \<Longrightarrow> fs \<noteq> [] \<Longrightarrow> last (trace fs s) = s'"
proof (induction fs arbitrary: s)
  case Nil
  then show ?case by simp
next
  case (Cons f fs)
  from Cons.prems obtain t where t: "f s = Some t" "run fs t = Some s'"
    by (auto split: option.splits)
  show ?case
  proof (cases "fs = []")
    case True
    with t show ?thesis by simp
  next
    case False
    with length_trace[OF t(2)] have "trace fs t \<noteq> []" by auto
    with Cons.IH[OF t(2) False] t show ?thesis by simp
  qed
qed

lemma trace_append:
  "run fs s = Some s' \<Longrightarrow> trace (fs @ gs) s = trace fs s @ trace gs s'"
  by (induction fs arbitrary: s) (auto split: option.splits)

lemma run_append:
  "run fs s = Some s' \<Longrightarrow> run (fs @ gs) s = run gs s'"
  by (induction fs arbitrary: s) (auto split: option.splits)

lemma build_run: "run build_stmts t = Some (built t)"
  by (simp add: build_stmts_def stmt_defs fill_loop_0 built_geometry_def built_def fun_upd_twist)

lemma at_most_one_liveI:
  "(\<forall>x. live_geometry t x \<longrightarrow> x = a) \<Longrightarrow> (\<forall>x. live_material t x \<longrightarrow> x = b)
   \<Longrightarrow> at_most_one_live t"
  unfolding at_most_one_live_def by blast

lemma field_complete_built [simp]: "field_complete (built_geometry M src d n)"
  by (simp add: field_complete_def built_geometry_def)

lemma steadyD:
  assumes "steady s"
  shows "\<exists>p g m geo mat.
    particleOrb s = Some p \<and> geometry s = Some g \<and> material s = Some m \<and>
    scene s = [p] \<and> points s p = Some (g, m) \<and>
    geometries s g = Some geo \<and> \<not> geometry_disposed geo \<and> field_complete geo \<and>
    materials s m = Some mat \<and> \<not> material_disposed mat \<and>
    (\<forall>x. live_geometry s x \<longrightarrow> x = g) \<and> (\<forall>x. live_material s x \<longrightarrow> x = m) \<and>
    g < next_ref s \<and> m < next_ref s \<and> p < next_ref s"
proof -
  from assms obtain p g m where 1: "particleOrb s = Some p" "geometry s = Some g"
      "material s = Some m" "scene s = [p]" "points s p = Some (g, m)"
      "drawable_object s p" "at_most_one_live s"
      "g < next_ref s" "m < next_ref s" "p < next_ref s"
    by (auto simp: steady_def split: option.splits)
  from 1 obtain geo mat where 2: "geometries s g = Some geo" "\<not> geometry_disposed geo"
      "field_complete geo" "materials s m = Some mat" "\<not> material_disposed mat"
    by (auto simp: drawable_object_def live_material_def split: option.splits)
  from 2 have lg: "live_geometry s g" and lm: "live_material s m"
    by (simp_all add: live_geometry_def live_material_def)
  from 1 lg have 3: "\<forall>x. live_geometry s x \<longrightarrow> x = g"
    unfolding at_most_one_live_def by blast
  from 1 lm have 4: "\<forall>x. live_material s x \<longrightarrow> x = m"
    unfolding at_most_one_live_def by blast
  from 1 2 3 4 show ?thesis by blast
qed

text \<open>The guarded block, run in a steady state.\<close>

lemma dispose_trace:
  assumes "particleOrb s = Some p" "scene s = [p]"
    "geometry s = Some g" "geometries s g = Some geo"
    "material s = Some m" "materials s m = Some mat"
  shows "trace dispose_stmts s =
      [s\<lparr>scene := []\<rparr>,
       s\<lparr>scene := [], geometries := (geometries s)(g \<mapsto> geo\<lparr>geometry_disposed := True\<rparr>)\<rparr>,
       released s g geo m mat]"
    and "run dispose_stmts s = Some (released s g geo m mat)"
  using assms by (simp_all add: dispose_stmts_def stmt_defs released_def)

lemma released_fields [simp]:
  "Math (released s g geo m mat) = Math s"
  "random_source (released s g geo m mat) = random_source s"
  "drawn (released s g geo m mat) = drawn s"
  "PARTICLE_COUNT (released s g geo m mat) = PARTICLE_COUNT s"
  "next_ref (released s g geo m mat) = next_ref s"
  "scene (released s g geo m mat) = []"
  "geometry (released s g geo m mat) = geometry s"
  by (simp_all add: released_def)

lemma createParticles_built:
  assumes "particleOrb s = None \<or> steady s"
  shows "\<exists>t. createParticles s = Some (built t) \<and> Math t = Math s \<and>
    random_source t = random_source s \<and> drawn t = drawn s \<and>
    PARTICLE_COUNT t = PARTICLE_COUNT s \<and> next_ref t = next_ref s"
proof (cases "particleOrb s")
  case None
  then have "createParticles s = Some (built s)"
    by (simp add: createParticles_def createParticles_body_def build_run)
  then show ?thesis by blast
next
  case (Some p)
  with assms have "steady s" by simp
  from steadyD[OF this] Some obtain g m geo mat where
    "particleOrb s = Some p" "scene s = [p]" "geometry s = Some g" "geometries s g = Some geo"
    "material s = Some m" "materials s m = Some mat"
    by auto
  then have "run dispose_stmts s = Some (released s g geo m mat)"
    by (rule dispose_trace)
  then have "createParticles s = Some (built (released s g geo m mat))"
    using Some by (simp add: createParticles_def createParticles_body_def run_append build_run)
  then show ?thesis by (intro exI[of _ "released s g geo m mat"]) simp
qed

lemma built_field:
  "geometry (built t) = Some (next_ref t)"
  "geometries (built t) (next_ref t) =
     Some (built_geometry (Math t) (random_source t) (drawn t) (PARTICLE_COUNT t))"
  by (simp_all add: built_def)

subsection \<open>The generated field\<close>

text \<open>
  C4. Called at startup or in a steady state with particle count \<open>N\<close>,
  \<open>createParticles\<close> returns, and the geometry it leaves in the variable \<open>geometry\<close>
  carries the attributes \<open>position\<close> and \<open>restingPosition\<close> with \<open>3 * N\<close> scalars each
  and \<open>aRandom\<close> with \<open>N\<close> scalars. The two position arrays are equal, and for each
  index \<open>i\<close> below \<open>N\<close> the \<open>i\<close>-th triple of \<open>restingPosition\<close> and the \<open>i\<close>-th seed
  are those of the \<open>i\<close>-th iteration of the loop, converted to singles: the triple is
  computed from the draws \<open>4 * i\<close>, \<open>4 * i + 1\<close> and \<open>4 * i + 2\<close> of the call and the
  seed is its draw \<open>4 * i + 3\<close>.
\<close>

theorem generated_field:
  assumes "particleOrb s = None \<or> steady s"
  shows "\<exists>s' g geo ps rs ra.
     createParticles s = Some s' \<and> geometry s' = Some g \<and> geometries s' g = Some geo \<and>
     geom_attributes geo ''position'' = Some \<lparr>array = ps, itemSize = 3\<rparr> \<and>
     geom_attributes geo ''restingPosition'' = Some \<lparr>array = rs, itemSize = 3\<rparr> \<and>
     geom_attributes geo ''aRandom'' = Some \<lparr>array = ra, itemSize = 1\<rparr> \<and>
     length ps = 3 * PARTICLE_COUNT s \<and> length rs = 3 * PARTICLE_COUNT s \<and>
     length ra = PARTICLE_COUNT s \<and> ps = rs \<and>
     (\<forall>i < PARTICLE_COUNT s.
        take 3 (drop (3 * i) rs) =
          map fround (pushed_point (Math s) (random_source s) (drawn s + 4 * i)) \<and>
        ra ! i = fround (random_source s (drawn s + 4 * i + 3)))"
proof -
  from createParticles_built[OF assms] obtain t where
    t: "createParticles s = Some (built t)" "Math t = Math s" "random_source t = random_source s"
       "drawn t = drawn s" "PARTICLE_COUNT t = PARTICLE_COUNT s"
    by blast
  let ?ps = "map fround (pushed_points (Math s) (random_source s) (drawn s) (PARTICLE_COUNT s))"
  let ?ra = "map fround (pushed_seeds (random_source s) (drawn s) (PARTICLE_COUNT s))"
  let ?geo = "built_geometry (Math s) (random_source s) (drawn s) (PARTICLE_COUNT s)"
  have "geometry (built t) = Some (next_ref t)" "geometries (built t) (next_ref t) = Some ?geo"
    using built_field[of t] t by simp_all
  moreover have "geom_attributes ?geo ''position'' = Some \<lparr>array = ?ps, itemSize = 3\<rparr>"
    "geom_attributes ?geo ''restingPosition'' = Some \<lparr>array = ?ps, itemSize = 3\<rparr>"
    "geom_attributes ?geo ''aRandom'' = Some \<lparr>array = ?ra, itemSize = 1\<rparr>"
    by (simp_all add: built_geometry_def)
  moreover have "\<forall>i < PARTICLE_COUNT s.
        take 3 (drop (3 * i) ?ps) =
          map fround (pushed_point (Math s) (random_source s) (drawn s + 4 * i)) \<and>
        ?ra ! i = fround (random_source s (drawn s + 4 * i + 3))"
    by (simp add: stored_triple pushed_seeds_nth)
  moreover have "length ?ps = 3 * PARTICLE_COUNT s" "length ?ra = PARTICLE_COUNT s"
    by simp_all
  ultimately show ?thesis using t(1) by blast
qed

subsection \<open>The order of a regeneration\<close>

lemma list_all_butlast_last:
  "xs \<noteq> [] \<Longrightarrow> list_all P (butlast xs) \<Longrightarrow> P (last xs) \<Longrightarrow> list_all P xs"
  by (induction xs) (auto split: if_splits)

lemma build_trace_props:
  assumes ng: "\<forall>x. \<not> live_geometry t x" and nm: "\<forall>x. \<not> live_material t x"
    and sc: "scene t = []"
  shows "length (trace build_stmts t) = 9"
    and "list_all drawable (trace build_stmts t)"
    and "list_all at_most_one_live (trace build_stmts t)"
    and "list_all (\<lambda>b. scene b = []) (butlast (trace build_stmts t))"
    and "list_all (\<lambda>b. \<forall>x. x \<noteq> next_ref t \<longrightarrow> \<not> live_geometry b x) (trace build_stmts t)"
    and "steady (built t)"
proof -
  have g: "\<And>x geo. geometries t x = Some geo \<Longrightarrow> geometry_disposed geo"
    using ng by (simp add: live_geometry_def split: option.splits)
  have m: "\<And>x mat. materials t x = Some mat \<Longrightarrow> material_disposed mat"
    using nm by (simp add: live_material_def split: option.splits)
  have lg: "live_geometry b x \<Longrightarrow> x = next_ref t"
    if "\<And>y. y \<noteq> next_ref t \<Longrightarrow> geometries b y = geometries t y" for b x
    using that g by (cases "x = next_ref t") (auto simp: live_geometry_def split: option.splits)
  have lm: "live_material b x \<Longrightarrow> x = Suc (next_ref t)"
    if "\<And>y. y \<noteq> Suc (next_ref t) \<Longrightarrow> materials b y = materials t y" for b x
    using that m
    by (cases "x = Suc (next_ref t)") (auto simp: live_material_def split: option.splits)
  have one: "at_most_one_live b"
    if "\<And>y. y \<noteq> next_ref t \<Longrightarrow> geometries b y = geometries t y"
      "\<And>y. y \<noteq> Suc (next_ref t) \<Longrightarrow> materials b y = materials t y" for b
    using lg[OF that(1)] lm[OF that(2)]
    by (intro at_most_one_liveI[of _ "next_ref t" "Suc (next_ref t)"]) blast+
  show "length (trace build_stmts t) = 9"
    using length_trace[OF build_run, of t] by (simp add: build_stmts_def)
  show "list_all at_most_one_live (trace build_stmts t)"
    by (simp add: build_stmts_def stmt_defs fill_loop_0) (intro conjI one; simp)
  show "list_all (\<lambda>b. \<forall>x. x \<noteq> next_ref t \<longrightarrow> \<not> live_geometry b x) (trace build_stmts t)"
    by (simp add: build_stmts_def stmt_defs fill_loop_0) (intro conjI allI impI notI; drule lg[rotated]; simp)
  have d: "drawable_object (built t) (Suc (Suc (next_ref t)))"
    by (simp add: drawable_object_def built_def live_material_def built_geometry_def
        field_complete_def)
  have e: "list_all (\<lambda>b. scene b = []) (butlast (trace build_stmts t))"
    using sc by (simp add: build_stmts_def stmt_defs fill_loop_0)
  then show "list_all (\<lambda>b. scene b = []) (butlast (trace build_stmts t))" .
  have l: "last (trace build_stmts t) = built t"
    using last_trace[OF build_run, of t] by (simp add: build_stmts_def)
  have ne: "trace build_stmts t \<noteq> []"
    using length_trace[OF build_run, of t] by (auto simp: build_stmts_def)
  have "list_all drawable (butlast (trace build_stmts t))"
    using e by (simp add: list_all_iff drawable_def)
  moreover have "drawable (last (trace build_stmts t))"
    unfolding l using d sc by (simp add: drawable_def built_def)
  ultimately show "list_all drawable (trace build_stmts t)"
    using ne by (simp add: list_all_butlast_last)
  have "at_most_one_live (built t)"
    by (rule one) (simp_all add: built_def)
  with d sc show "steady (built t)"
    by (simp add: steady_def built_def)
qed

lemma regeneration_trace:
  assumes "particleOrb s = Some p" "scene s = [p]"
    "geometry s = Some g" "geometries s g = Some geo"
    "material s = Some m" "materials s m = Some mat"
  shows "trace (createParticles_body s) s =
      [s\<lparr>scene := []\<rparr>,
       s\<lparr>scene := [], geometries := (geometries s)(g \<mapsto> geo\<lparr>geometry_disposed := True\<rparr>)\<rparr>,
       released s g geo m mat] @ trace build_stmts (released s g geo m mat)"
    and "createParticles s = Some (built (released s g geo m mat))"
proof -
  have r: "run dispose_stmts s = Some (released s g geo m mat)"
    using assms by (rule dispose_trace)
  show "trace (createParticles_body s) s =
      [s\<lparr>scene := []\<rparr>,
       s\<lparr>scene := [], geometries := (geometries s)(g \<mapsto> geo\<lparr>geometry_disposed := True\<rparr>)\<rparr>,
       released s g geo m mat] @ trace build_stmts (released s g geo m mat)"
    using assms(1) trace_append[OF r, of build_stmts] dispose_trace(1)[OF assms]
    by (simp add: createParticles_body_def)
  show "createParticles s = Some (built (released s g geo m mat))"
    using assms(1) run_append[OF r, of build_stmts]
    by (simp add: createParticles_def createParticles_body_def build_run)
qed

lemma steady_count_changed: "steady count_changed"
proof -
  have "drawable_object count_changed 2"
    by (simp add: drawable_object_def count_changed_def live_material_def field_complete_def
        old_field_def)
  moreover have "at_most_one_live count_changed"
    by (rule at_most_one_liveI[of _ 0 1])
      (simp_all add: live_geometry_def live_material_def count_changed_def)
  ultimately show ?thesis
    by (simp add: steady_def count_changed_def)
qed

text \<open>
  The script calls \<open>createParticles\<close> once at startup and then from the handler of the
  particle-count control only: it is steady after the first call and stays so.
\<close>

lemma steady_startup: "\<exists>s'. createParticles (initial M src) = Some s' \<and> steady s'"
proof -
  have "createParticles (initial M src) = Some (built (initial M src))"
    by (simp add: createParticles_def createParticles_body_def build_run initial_def)
  moreover have "steady (built (initial M src))"
    by (rule build_trace_props)
      (simp_all add: initial_def live_geometry_def live_material_def)
  ultimately show ?thesis by blast
qed

lemma steady_PARTICLE_COUNT: "steady (s\<lparr>PARTICLE_COUNT := n\<rparr>) = steady s"
proof -
  have g: "live_geometry (s\<lparr>PARTICLE_COUNT := n\<rparr>) = live_geometry s"
    and m: "live_material (s\<lparr>PARTICLE_COUNT := n\<rparr>) = live_material s"
    by (simp_all add: live_geometry_def live_material_def fun_eq_iff)
  have d: "drawable_object (s\<lparr>PARTICLE_COUNT := n\<rparr>) p = drawable_object s p" for p
    by (simp add: drawable_object_def m split: option.splits prod.splits)
  have "at_most_one_live (s\<lparr>PARTICLE_COUNT := n\<rparr>) = at_most_one_live s"
    by (simp add: at_most_one_live_def g m)
  with d show ?thesis
    by (simp add: steady_def split: option.splits)
qed

lemma steady_onFinishChange:
  assumes "steady s"
  shows "\<exists>s'. onFinishChange n s = Some s' \<and> steady s' \<and> PARTICLE_COUNT s' = n"
proof -
  let ?s = "s\<lparr>PARTICLE_COUNT := n\<rparr>"
  from assms have "steady ?s"
    by (simp add: steady_PARTICLE_COUNT)
  from steadyD[OF this] obtain p g m geo mat where f:
    "particleOrb ?s = Some p" "scene ?s = [p]"
    "geometry ?s = Some g" "geometries ?s g = Some geo"
    "material ?s = Some m" "materials ?s m = Some mat"
    and u: "\<forall>x. live_geometry ?s x \<longrightarrow> x = g" "\<forall>x. live_material ?s x \<longrightarrow> x = m"
    by blast
  let ?t = "released ?s g geo m mat"
  have "createParticles ?s = Some (built ?t)"
    using f by (rule regeneration_trace)
  moreover have "\<not> live_geometry ?t x" for x
    using u(1) f(4) by (auto simp: live_geometry_def released_def split: option.splits)
  moreover have "\<not> live_material ?t x" for x
    using u(2) f(6) by (auto simp: live_material_def released_def split: option.splits)
  then have "steady (built ?t)"
    using calculation(2) by (intro build_trace_props) simp_all
  moreover have "PARTICLE_COUNT (built ?t) = n"
    by (simp add: built_def released_def)
  ultimately show ?thesis
    by (simp add: onFinishChange_def)
qed

lemma pushed_point_zero_source: "pushed_point rounded_math (\<lambda>k. 0) k = [0, 0, 0]"
  by (simp add: pushed_point_def r_of_def rounded_math_def)

lemma pushed_of_zero_source:
  "pushed_points rounded_math (\<lambda>k. 0) d n = replicate (3 * n) 0"
  "pushed_seeds (\<lambda>k. 0) d n = replicate n 0"
proof -
  note p = pushed_point_zero_source
  have t: "[0, 0, 0] = replicate 3 (0::real)"
    by (simp add: numeral_3_eq_3)
  show "pushed_points rounded_math (\<lambda>k. 0) d n = replicate (3 * n) 0"
    by (induction n) (simp_all add: pushed_points_def p t replicate_add[symmetric])
  show "pushed_seeds (\<lambda>k. 0) d n = replicate n 0"
    by (induction n) (simp_all add: pushed_seeds_def replicate_append_same)
qed

lemma count_changed_reachable:
  "createParticles (initial rounded_math (\<lambda>k. 0)) = Some (count_changed\<lparr>PARTICLE_COUNT := 100000\<rparr>)"
proof -
  have "createParticles (initial rounded_math (\<lambda>k. 0)) = Some (built (initial rounded_math (\<lambda>k. 0)))"
    by (simp add: createParticles_def createParticles_body_def build_run initial_def)
  moreover have "built (initial rounded_math (\<lambda>k. 0)) = count_changed\<lparr>PARTICLE_COUNT := 100000\<rparr>"
    by (simp add: built_def initial_def count_changed_def built_geometry_def old_field_def
        pushed_of_zero_source numeral_2_eq_2[symmetric])
  ultimately show ?thesis by simp
qed

text \<open>
  C3, in the order build, swap, release: the old geometry would be released only once the
  new field is in the scene. This fails: after the second statement of the regeneration
  of \<open>count_changed\<close> the old geometry 0 is disposed and the scene is empty.
\<close>

theorem release_before_build:
  "\<not> build_swap_release 0 (trace (createParticles_body count_changed) count_changed)"
proof -
  have "trace (createParticles_body count_changed) count_changed =
      [count_changed\<lparr>scene := []\<rparr>,
       count_changed\<lparr>scene := [],
         geometries := (geometries count_changed)(0 \<mapsto> old_field\<lparr>geometry_disposed := True\<rparr>)\<rparr>,
       released count_changed 0 old_field 1 (the (materials count_changed 1))]
      @ trace build_stmts (released count_changed 0 old_field 1 (the (materials count_changed 1)))"
    by (rule regeneration_trace) (simp_all add: count_changed_def)
  then show ?thesis
    by (simp add: build_swap_release_def live_geometry_def new_field_in_scene_def)
qed

text \<open>
  C3, as the code has it. A regeneration in a steady state runs twelve statements and
  returns. The old field is removed from the scene and its geometry and material are
  disposed first, while the variable \<open>geometry\<close> still refers to the old geometry; the
  new field is built then and added to the scene by the last statement. After every
  statement the scene holds complete, undisposed objects only (it is empty until the
  last statement), and at most one geometry and at most one material are live. The old
  geometry is not live from the second statement on, and the final state is steady with a
  new geometry.
\<close>

theorem regeneration_order:
  assumes st: "steady s" and g: "geometry s = Some g"
  shows "(let tr = trace (createParticles_body s) s in
           length tr = 12 \<and> createParticles s = Some (last tr) \<and>
           list_all drawable tr \<and> list_all at_most_one_live tr \<and>
           list_all (\<lambda>t. scene t = []) (butlast tr) \<and>
           list_all (\<lambda>t. geometry t = Some g) (take 3 tr) \<and>
           list_all (\<lambda>t. \<not> live_geometry t g) (drop 1 tr) \<and>
           steady (last tr) \<and> geometry (last tr) = Some (next_ref s) \<and> g < next_ref s)"
proof -
  from steadyD[OF st] g obtain p m geo mat where f:
    "particleOrb s = Some p" "scene s = [p]"
    "geometry s = Some g" "geometries s g = Some geo"
    "material s = Some m" "materials s m = Some mat"
    and u: "\<forall>x. live_geometry s x \<longrightarrow> x = g" "\<forall>x. live_material s x \<longrightarrow> x = m"
    and fresh: "g < next_ref s"
    by auto
  let ?s1 = "s\<lparr>scene := []\<rparr>"
  let ?s2 = "s\<lparr>scene := [],
    geometries := (geometries s)(g \<mapsto> geo\<lparr>geometry_disposed := True\<rparr>)\<rparr>"
  let ?t = "released s g geo m mat"
  let ?b = "trace build_stmts ?t"
  have tr: "trace (createParticles_body s) s = [?s1, ?s2, ?t] @ ?b"
    and cp: "createParticles s = Some (built ?t)"
    using f by (rule regeneration_trace)+
  have ng2: "\<not> live_geometry ?s2 x" and ng: "\<not> live_geometry ?t x" for x
    using u(1) f(4) by (auto simp: live_geometry_def released_def split: option.splits)
  have nm: "\<not> live_material ?t x" for x
    using u(2) f(6) by (auto simp: live_material_def released_def split: option.splits)
  have lm: "live_material ?s1 x \<Longrightarrow> x = m" "live_material ?s2 x \<Longrightarrow> x = m"
    and lg: "live_geometry ?s1 x \<Longrightarrow> x = g" for x
    using u by (simp_all add: live_material_def live_geometry_def)
  have b: "length ?b = 9" "list_all drawable ?b" "list_all at_most_one_live ?b"
    "list_all (\<lambda>b. scene b = []) (butlast ?b)"
    "list_all (\<lambda>b. \<forall>x. x \<noteq> next_ref ?t \<longrightarrow> \<not> live_geometry b x) ?b"
    "steady (built ?t)"
    using ng nm by (intro build_trace_props; simp)+
  from b(1) have ne: "?b \<noteq> []" by auto
  have l: "last ?b = built ?t"
    using last_trace[OF build_run, of ?t] by (simp add: build_stmts_def)
  have one: "at_most_one_live ?s1" "at_most_one_live ?s2" "at_most_one_live ?t"
    using lm lg ng2 ng nm by (intro at_most_one_liveI[of _ g m]; blast)+
  have old: "list_all (\<lambda>t. \<not> live_geometry t g) ?b"
    using b(5) fresh by (simp add: list_all_iff)
  have "length ([?s1, ?s2, ?t] @ ?b) = 12"
    using b(1) by simp
  moreover have "createParticles s = Some (last ([?s1, ?s2, ?t] @ ?b))"
    using cp l ne by simp
  moreover have "list_all drawable ([?s1, ?s2, ?t] @ ?b)"
    using b(2) by (simp add: drawable_def)
  moreover have "list_all at_most_one_live ([?s1, ?s2, ?t] @ ?b)"
    using b(3) one by simp
  moreover have "list_all (\<lambda>t. scene t = []) (butlast ([?s1, ?s2, ?t] @ ?b))"
    using b(4) ne by (simp add: butlast_append)
  moreover have "list_all (\<lambda>t. geometry t = Some g) (take 3 ([?s1, ?s2, ?t] @ ?b))"
    using f(3) by simp
  moreover have "list_all (\<lambda>t. \<not> live_geometry t g) (drop 1 ([?s1, ?s2, ?t] @ ?b))"
    using old ng2 ng by simp
  moreover have "steady (last ([?s1, ?s2, ?t] @ ?b))"
    "geometry (last ([?s1, ?s2, ?t] @ ?b)) = Some (next_ref s)"
    using b(6) l ne by (simp_all add: built_field)
  ultimately show ?thesis
    unfolding tr Let_def using fresh by blast
qed

theorem regeneration_order_witness:
  "steady count_changed \<and> geometry count_changed = Some 0
   \<and> length (trace (createParticles_body count_changed) count_changed) = 12
   \<and> list_all drawable (trace (createParticles_body count_changed) count_changed)
   \<and> list_all at_most_one_live (trace (createParticles_body count_changed) count_changed)
   \<and> \<not> live_geometry (trace (createParticles_body count_changed) count_changed ! 1) 0
   \<and> geometry (last (trace (createParticles_body count_changed) count_changed)) = Some 3"
proof -
  have g: "geometry count_changed = Some 0" and n: "next_ref count_changed = 3"
    by (simp_all add: count_changed_def)
  let ?tr = "trace (createParticles_body count_changed) count_changed"
  from regeneration_order[OF steady_count_changed g]
  have r: "length ?tr = 12" "list_all drawable ?tr" "list_all at_most_one_live ?tr"
    "list_all (\<lambda>t. \<not> live_geometry t 0) (drop 1 ?tr)"
    "geometry (last ?tr) = Some 3"
    by (simp_all add: Let_def n)
  from r(1) r(4) have "\<not> live_geometry (?tr ! 1) 0"
    by (simp add: list_all_length)
  with r steady_count_changed g show ?thesis by simp
qed

theorem generated_field_witness:
  "steady count_changed \<and>
   (\<exists>s' g geo ps rs ra.
     createParticles count_changed = Some s' \<and> geometry s' = Some g \<and>
     geometries s' g = Some geo \<and>
     geom_attributes geo ''position'' = Some \<lparr>array = ps, itemSize = 3\<rparr> \<and>
     geom_attributes geo ''restingPosition'' = Some \<lparr>array = rs, itemSize = 3\<rparr> \<and>
     geom_attributes geo ''aRandom'' = Some \<lparr>array = ra, itemSize = 1\<rparr> \<and>
     length ps = 150000 \<and> length rs = 150000 \<and> length ra = 50000 \<and> ps = rs \<and>
     take 3 rs = [0, 0, 0] \<and> ra ! 0 = 0)"
proof -
  have c: "PARTICLE_COUNT count_changed = 50000" "random_source count_changed = (\<lambda>k. 0)"
    "Math count_changed = rounded_math"
    by (simp_all add: count_changed_def)
  have p: "map fround (pushed_point rounded_math (\<lambda>k. 0) d) = [0, 0, 0]" "fround 0 = 0" for d
    by (simp_all add: pushed_point_zero_source)
  from generated_field[of count_changed] steady_count_changed
  obtain s' g geo ps rs ra where r:
     "createParticles count_changed = Some s'" "geometry s' = Some g"
     "geometries s' g = Some geo"
     "geom_attributes geo ''position'' = Some \<lparr>array = ps, itemSize = 3\<rparr>"
     "geom_attributes geo ''restingPosition'' = Some \<lparr>array = rs, itemSize = 3\<rparr>"
     "geom_attributes geo ''aRandom'' = Some \<lparr>array = ra, itemSize = 1\<rparr>"
     "length ps = 150000" "length rs = 150000" "length ra = 50000" "ps = rs"
     and i: "\<forall>i<50000. take 3 (drop (3 * i) rs) = [0, 0, 0] \<and> ra ! i = 0"
    unfolding c p by auto
  from i have "take 3 rs = [0, 0, 0] \<and> ra ! 0 = 0"
    by (auto dest: spec[of _ 0])
  with r steady_count_changed show ?thesis by blast
qed

subsection \<open>Rest positions\<close>

lemma rest_triple_built:
  "i < PARTICLE_COUNT t \<Longrightarrow>
     rest_triple (built t) i =
       map fround (pushed_point (Math t) (random_source t) (drawn t + 4 * i))"
  by (simp add: rest_triple_def built_field built_geometry_def stored_triple)

lemma accurate_rounded_math: "accurate rounded_math"
proof -
  have e: "\<bar>fl64 x - x\<bar> \<le> 1 / 2 ^ 40" if "\<bar>x\<bar> \<le> 1" for x
  proof -
    from that have "\<bar>fl64 x - x\<bar> \<le> 1 / 2 ^ 51"
      by (intro fl64_err) simp
    moreover have "(1::real) / 2 ^ 51 \<le> 1 / 2 ^ 40"
      by simp
    ultimately show ?thesis by linarith
  qed
  have r: "\<bar>root 3 v\<bar> \<le> 1" if "0 \<le> v" "v < 1" for v :: real
  proof -
    have "0 \<le> root 3 v" "root 3 v < 1"
      using that by simp_all
    then show ?thesis by simp
  qed
  have f: "Math_sin rounded_math = (\<lambda>x. fl64 (sin x))"
    "Math_cos rounded_math = (\<lambda>x. fl64 (cos x))"
    "Math_cbrt rounded_math = (\<lambda>x. fl64 (root 3 x))"
    by (simp_all add: rounded_math_def)
  show ?thesis
    unfolding accurate_def f
  proof (intro conjI allI impI)
    fix t :: real
    show "\<bar>fl64 (sin t) - sin t\<bar> \<le> 1 / 2 ^ 40"
      by (rule e) simp
    show "\<bar>fl64 (cos t) - cos t\<bar> \<le> 1 / 2 ^ 40"
      by (rule e) simp
  next
    fix v :: real
    assume "0 \<le> v \<and> v < 1"
    then show "\<bar>fl64 (root 3 v) - root 3 v\<bar> \<le> 1 / 2 ^ 40"
      by (intro e r) simp_all
  qed
qed

text \<open>
  The first particle of \<open>tilted_start\<close>. Its azimuth is 0 and the cosine of its polar
  angle is \<open>- 19 / 32\<close>, so that the sine is \<open>sqrt 663 / 32\<close>; the cube root of the
  draw for the radius lies between \<open>1 - 2\<^sup>-\<^sup>3\<^sup>1\<close> and 1.
\<close>

lemma tilted_angles:
  "theta_of tilted_source 0 = 0"
  "phi_of rounded_math tilted_source 0 = fl64 (arccos (- (19 / 32)))"
proof -
  show "theta_of tilted_source 0 = 0"
    by (simp add: theta_of_def tilted_source_def)
  have "fl64 (fl64 (tilted_source (0 + 1) * 2) - 1) = fl64 (fl64 (13 / 32) - 1)"
    by (simp add: tilted_source_def)
  also have "\<dots> = fl64 (- (19 / 32))"
    unfolding fl64_13_32 by simp
  also have "\<dots> = - (19 / 32)"
    by (rule fl64_m19_32)
  finally show "phi_of rounded_math tilted_source 0 = fl64 (arccos (- (19 / 32)))"
    by (simp add: phi_of_def rounded_math_def)
qed

lemma tilted_polar:
  "\<bar>sin (fl64 (arccos (- (19 / 32)))) - sqrt (663 / 1024)\<bar> \<le> 1 / 2 ^ 51"
  "\<bar>cos (fl64 (arccos (- (19 / 32)))) - (- (19 / 32))\<bar> \<le> 1 / 2 ^ 51"
proof -
  let ?a = "arccos (- (19 / 32) :: real)"
  have "0 \<le> ?a" "?a \<le> pi"
    by (simp_all add: arccos_lbound arccos_ubound)
  with pi_less_4 have "\<bar>?a\<bar> \<le> 4"
    by simp
  then have e: "\<bar>fl64 ?a - ?a\<bar> \<le> 1 / 2 ^ 51"
    by (rule fl64_err)
  have "sin ?a = sqrt (1 - (- (19 / 32))\<^sup>2)"
    by (intro sin_arccos) simp_all
  also have "1 - (- (19 / 32 :: real))\<^sup>2 = 663 / 1024"
    by (simp add: power2_eq_square)
  finally have s: "sin ?a = sqrt (663 / 1024)" .
  have c: "cos ?a = - (19 / 32)"
    by (intro cos_arccos) simp_all
  show "\<bar>sin (fl64 ?a) - sqrt (663 / 1024)\<bar> \<le> 1 / 2 ^ 51"
    using sin_lipschitz[of "fl64 ?a" ?a] e unfolding s by linarith
  show "\<bar>cos (fl64 ?a) - (- (19 / 32))\<bar> \<le> 1 / 2 ^ 51"
    using cos_lipschitz[of "fl64 ?a" ?a] e unfolding c by linarith
qed

lemma sqrt_663:
  "40232478717 / 50000000000 \<le> sqrt (663 / 1024)"
  "sqrt (663 / 1024) \<le> 16092991487 / 20000000000"
  by (rule real_le_rsqrt, simp add: power2_eq_square)
    (rule real_le_lsqrt, simp_all add: power2_eq_square)

lemma tilted_radius:
  "1 - 1 / 2 ^ 31 \<le> root 3 (1 - 1 / 2 ^ 30)" "root 3 (1 - 1 / 2 ^ 30) \<le> 1"
proof -
  have "(1 - 1 / 2 ^ 31 :: real) ^ 3 \<le> 1 - 1 / 2 ^ 30"
    by (simp add: power3_eq_cube)
  then have a: "root 3 ((1 - 1 / 2 ^ 31 :: real) ^ 3) \<le> root 3 (1 - 1 / 2 ^ 30)"
    by (simp only: real_root_le_iff zero_less_numeral)
  have b: "root 3 ((1 - 1 / 2 ^ 31 :: real) ^ 3) = 1 - 1 / 2 ^ 31"
    by (intro real_root_power_cancel) simp_all
  show "1 - 1 / 2 ^ 31 \<le> root 3 (1 - 1 / 2 ^ 30)"
    using a unfolding b .
  have "root 3 (1 - 1 / 2 ^ 30 :: real) \<le> root 3 1"
    by (simp only: real_root_le_iff zero_less_numeral) simp
  then show "root 3 (1 - 1 / 2 ^ 30) \<le> 1"
    by simp
qed

lemma tilted_exact_point:
  "exact_point rounded_math tilted_source 0 =
     [3 / 2 * root 3 (1 - 1 / 2 ^ 30) * sin (fl64 (arccos (- (19 / 32)))), 0,
      3 / 2 * root 3 (1 - 1 / 2 ^ 30) * cos (fl64 (arccos (- (19 / 32))))]"
  by (simp add: exact_point_def tilted_angles arrangementRadius_def tilted_source_def)

lemma tilted_pushed_y: "pushed_point rounded_math tilted_source 0 ! 1 = 0"
  by (simp add: pushed_point_def tilted_angles rounded_math_def)

lemma tilted_pushed_x:
  "3 / 2 * (1 - 1 / 2 ^ 31) * (40232478717 / 50000000000 - 1 / 2 ^ 51) - 1 / 2 ^ 34
     \<le> pushed_point rounded_math tilted_source 0 ! 0"
  "pushed_point rounded_math tilted_source 0 ! 0
     \<le> 3 / 2 * (16092991487 / 20000000000 + 1 / 2 ^ 51) + 1 / 2 ^ 34"
proof -
  let ?\<rho> = "root 3 (1 - 1 / 2 ^ 30 :: real)"
  let ?s = "sin (fl64 (arccos (- (19 / 32))))"
  let ?x = "pushed_point rounded_math tilted_source 0 ! 0"
  have "\<bar>?x - exact_point rounded_math tilted_source 0 ! 0\<bar> \<le> 1 / 2 ^ 35"
    by (intro pushed_point_err accurate_rounded_math) (simp_all add: tilted_source_def)
  then have e: "\<bar>?x - 3 / 2 * ?\<rho> * ?s\<bar> \<le> 1 / 2 ^ 35"
    by (simp add: tilted_exact_point)
  have s: "40232478717 / 50000000000 - 1 / 2 ^ 51 \<le> ?s"
    "?s \<le> 16092991487 / 20000000000 + 1 / 2 ^ 51"
    using tilted_polar(1) sqrt_663 by linarith+
  have "(0::real) \<le> 40232478717 / 50000000000 - 1 / 2 ^ 51"
    by simp
  with s(1) have s0: "(0::real) \<le> 40232478717 / 50000000000 - 1 / 2 ^ 51" "0 \<le> ?s"
    by linarith+
  have "(1 - 1 / 2 ^ 31) * (40232478717 / 50000000000 - 1 / 2 ^ 51) \<le> ?\<rho> * ?s"
    using tilted_radius(1) s(1) s0 by (intro mult_mono) simp_all
  moreover have "?\<rho> * ?s \<le> 1 * (16092991487 / 20000000000 + 1 / 2 ^ 51)"
    using tilted_radius(2) s(2) s0 by (intro mult_mono) simp_all
  moreover have "(1::real) / 2 ^ 35 \<le> 1 / 2 ^ 34"
    by simp
  ultimately show
    "3 / 2 * (1 - 1 / 2 ^ 31) * (40232478717 / 50000000000 - 1 / 2 ^ 51) - 1 / 2 ^ 34 \<le> ?x"
    "?x \<le> 3 / 2 * (16092991487 / 20000000000 + 1 / 2 ^ 51) + 1 / 2 ^ 34"
    using e by linarith+
qed

lemma tilted_pushed_z:
  "3 / 2 * (- (19 / 32) - 1 / 2 ^ 51) - 1 / 2 ^ 34
     \<le> pushed_point rounded_math tilted_source 0 ! 2"
  "pushed_point rounded_math tilted_source 0 ! 2
     \<le> 3 / 2 * (1 - 1 / 2 ^ 31) * (- (19 / 32) + 1 / 2 ^ 51) + 1 / 2 ^ 34"
proof -
  let ?\<rho> = "root 3 (1 - 1 / 2 ^ 30 :: real)"
  let ?c = "cos (fl64 (arccos (- (19 / 32))))"
  let ?z = "pushed_point rounded_math tilted_source 0 ! 2"
  have "\<bar>?z - exact_point rounded_math tilted_source 0 ! 2\<bar> \<le> 1 / 2 ^ 35"
    by (intro pushed_point_err accurate_rounded_math) (simp_all add: tilted_source_def)
  then have e: "\<bar>?z - 3 / 2 * ?\<rho> * ?c\<bar> \<le> 1 / 2 ^ 35"
    by (simp add: tilted_exact_point)
  have c: "- (19 / 32) - 1 / 2 ^ 51 \<le> ?c" "?c \<le> - (19 / 32) + 1 / 2 ^ 51"
    using tilted_polar(2) by linarith+
  have "(0::real) \<le> - (- (19 / 32) + 1 / 2 ^ 51)"
    by simp
  with c(2) have c0: "(0::real) \<le> - (- (19 / 32) + 1 / 2 ^ 51)" "0 \<le> - ?c"
    by linarith+
  have "(1 - 1 / 2 ^ 31) * (- (- (19 / 32) + 1 / 2 ^ 51)) \<le> ?\<rho> * (- ?c)"
    using tilted_radius(1) c(2) c0 by (intro mult_mono) simp_all
  moreover have "?\<rho> * (- ?c) \<le> 1 * (- (- (19 / 32) - 1 / 2 ^ 51))"
    using tilted_radius(2) c(1) c0 by (intro mult_mono) simp_all
  moreover have "(1::real) / 2 ^ 35 \<le> 1 / 2 ^ 34"
    by simp
  ultimately show
    "3 / 2 * (- (19 / 32) - 1 / 2 ^ 51) - 1 / 2 ^ 34 \<le> ?z"
    "?z \<le> 3 / 2 * (1 - 1 / 2 ^ 31) * (- (19 / 32) + 1 / 2 ^ 51) + 1 / 2 ^ 34"
    using e by linarith+
qed

lemma tilted_rest_triple:
  "createParticles tilted_start = Some (built tilted_start)"
  "rest_triple (built tilted_start) 0 = [10124835 / 8388608, 0, - (57 / 64)]"
proof -
  show "createParticles tilted_start = Some (built tilted_start)"
    by (simp add: createParticles_def createParticles_body_def build_run tilted_start_def
        initial_def)
  let ?p = "pushed_point rounded_math tilted_source 0"
  have "rest_triple (built tilted_start) 0 = map fround ?p"
    by (subst rest_triple_built) (simp_all add: tilted_start_def initial_def)
  also have "\<dots> = [fround (?p ! 0), fround (?p ! 1), fround (?p ! 2)]"
    by (simp add: pushed_point_def)
  also have "\<dots> = [10124835 / 8388608, 0, - (57 / 64)]"
    unfolding fround_near_x[OF tilted_pushed_x] fround_near_z[OF tilted_pushed_z]
      tilted_pushed_y fround_0 ..
  finally show "rest_triple (built tilted_start) 0 = [10124835 / 8388608, 0, - (57 / 64)]" .
qed

text \<open>
  C5, for the numbers the code stores. The claim fails: at startup with a correctly
  rounded engine and the draws 0, \<open>13 / 64\<close> and \<open>1 - 2\<^sup>-\<^sup>3\<^sup>0\<close> for the first particle,
  all in \<open>[0, 1)\<close>, the rest position stored for it is
  \<open>(10124835 / 8388608, 0, - 57 / 64)\<close>, whose norm exceeds \<open>arrangementRadius\<close>: the
  conversion of the first coordinate to a single rounds it up.
\<close>

theorem rest_position_outside_radius:
  "0 \<le> tilted_source 0 \<and> tilted_source 0 < 1 \<and> 0 \<le> tilted_source 1 \<and> tilted_source 1 < 1 \<and>
   0 \<le> tilted_source 2 \<and> tilted_source 2 < 1 \<and>
   createParticles tilted_start = Some (built tilted_start) \<and>
   rest_triple (built tilted_start) 0 = [10124835 / 8388608, 0, - (57 / 64)] \<and>
   arrangementRadius < norm3 (rest_triple (built tilted_start) 0)"
proof -
  have "(3 / 2 :: real) < sqrt ((10124835 / 8388608)\<^sup>2 + (57 / 64)\<^sup>2)"
    by (rule real_less_rsqrt) (simp add: power2_eq_square)
  then have "arrangementRadius < norm3 [10124835 / 8388608, 0, - (57 / 64)]"
    by (simp add: arrangementRadius_def)
  then show ?thesis
    by (simp add: tilted_rest_triple tilted_source_def)
qed

text \<open>
  C5, as the code has it. In exact arithmetic the point of an iteration has norm
  \<open>arrangementRadius * cbrt v\<close>, which is at most \<open>arrangementRadius\<close>
  (\<open>exact_point_norm\<close>). The code rounds each product to a double and each stored
  coordinate to a single: called at startup or in a steady state with an accurate engine
  and draws in \<open>[0, 1)\<close>, \<open>createParticles\<close> returns, and every triple of the
  \<open>restingPosition\<close> attribute it leaves has three coordinates and a Euclidean norm of at
  most \<open>arrangementRadius * (1 + 2\<^sup>-\<^sup>2\<^sup>2)\<close>.
\<close>

theorem rest_position_within_radius:
  assumes "particleOrb s = None \<or> steady s"
    and "accurate (Math s)"
    and "\<forall>k. 0 \<le> random_source s k \<and> random_source s k < 1"
  shows "\<exists>s'. createParticles s = Some s' \<and>
     (\<forall>i < PARTICLE_COUNT s.
        length (rest_triple s' i) = 3 \<and>
        norm3 (rest_triple s' i) \<le> arrangementRadius * (1 + 1 / 2 ^ 22))"
proof -
  from createParticles_built[OF assms(1)] obtain t where
    t: "createParticles s = Some (built t)" "Math t = Math s" "random_source t = random_source s"
       "drawn t = drawn s" "PARTICLE_COUNT t = PARTICLE_COUNT s"
    by blast
  have "length (rest_triple (built t) i) = 3 \<and>
      norm3 (rest_triple (built t) i) \<le> arrangementRadius * (1 + 1 / 2 ^ 22)"
    if "i < PARTICLE_COUNT s" for i
  proof -
    have "rest_triple (built t) i =
        map fround (pushed_point (Math s) (random_source s) (drawn s + 4 * i))"
      using that t by (simp add: rest_triple_built)
    moreover have "norm3 (map fround (pushed_point (Math s) (random_source s) (drawn s + 4 * i)))
        \<le> arrangementRadius * (1 + 1 / 2 ^ 22)"
      using assms(2,3) by (intro stored_point_norm) simp_all
    ultimately show ?thesis by simp
  qed
  with t(1) show ?thesis by blast
qed

theorem rest_position_within_radius_witness:
  "particleOrb tilted_start = None \<and> accurate (Math tilted_start) \<and>
   (\<forall>k. 0 \<le> random_source tilted_start k \<and> random_source tilted_start k < 1) \<and>
   (\<exists>s'. createParticles tilted_start = Some s' \<and>
      rest_triple s' 0 = [10124835 / 8388608, 0, - (57 / 64)] \<and>
      norm3 (rest_triple s' 0) \<le> arrangementRadius * (1 + 1 / 2 ^ 22))"
proof -
  have o: "particleOrb tilted_start = None" and a: "accurate (Math tilted_start)"
    and d: "\<forall>k. 0 \<le> random_source tilted_start k \<and> random_source tilted_start k < 1"
    and n: "0 < PARTICLE_COUNT tilted_start"
    by (simp_all add: tilted_start_def initial_def accurate_rounded_math tilted_source_def)
  from rest_position_within_radius[of tilted_start] o a d
  obtain s' where r: "createParticles tilted_start = Some s'"
    and i: "\<forall>i < PARTICLE_COUNT tilted_start.
        length (rest_triple s' i) = 3 \<and>
        norm3 (rest_triple s' i) \<le> arrangementRadius * (1 + 1 / 2 ^ 22)"
    by blast
  from i n have "norm3 (rest_triple s' 0) \<le> arrangementRadius * (1 + 1 / 2 ^ 22)"
    by blast
  moreover from r have "s' = built tilted_start"
    by (simp add: tilted_rest_triple)
  ultimately show ?thesis
    using o a d r by (simp add: tilted_rest_triple)
qed

end
